theory Spec2Isabelle
  imports Complex_Main "HOL-Library.Char_ord" "HOL-Library.List_Lexorder"
begin

section \<open>Values, errors and observable events\<close>

text \<open>
  The price hook \<^verbatim>\<open>src/hooks/useCryptoPriceV2.js\<close> is embedded function by function.
  JavaScript numbers are idealised as exact numbers: \<open>int\<close> for what \<^verbatim>\<open>Math.round\<close>
  returns and for epoch milliseconds, \<open>rat\<close> for raw prices, so \<^verbatim>\<open>NaN\<close>, infinities and
  binary rounding are outside the model. A thrown value is a \<open>jsError\<close>.
\<close>

datatype jsError =
    Error string
  | TypeError
  | SyntaxError
  | TimeoutError
  | StorageError
  | AggregateError "jsError list"

text \<open>
  What one call of an awaited function does: it throws, or it returns a value that the
  test \<^verbatim>\<open>if (result)\<close> sees as falsy (\<^verbatim>\<open>null\<close>, \<^verbatim>\<open>undefined\<close>, \<^verbatim>\<open>0\<close>, ...) or as truthy.
\<close>

datatype 'a outcome = Throws jsError | Falsy | Truthy 'a

text \<open>
  The effects a test double can count: a call of a provider's fetch function (named by the
  \<^verbatim>\<open>apiName\<close> of its wrapper), a \<^verbatim>\<open>sleep(ms)\<close>, and a proxy race for a URL.
\<close>

datatype event = Invoke string | Sleep nat | Race string

text \<open>The two records of the data model; \<^verbatim>\<open>null\<close> and absent fields are \<open>None\<close>.\<close>

record PricePoint =
  month :: string
  price :: int

record CurrentPrice =
  price :: int
  change24h :: "rat option"
  source :: "string option"

section \<open>Configuration constants\<close>

definition CORS_PROXIES :: "string list" where
  "CORS_PROXIES =
    [''https://corsproxy.io/?'',
     ''https://api.allorigins.win/raw?url='',
     ''https://api.codetabs.com/v1/proxy?quest='']"

definition COINGECKO_API :: string where
  "COINGECKO_API = ''https://api.coingecko.com/api/v3''"

definition CACHE_KEY :: string where
  "CACHE_KEY = ''btc_price_cache_v2''"

definition CACHE_TTL :: int where
  "CACHE_TTL = 60 * 1000"

definition REQUEST_TIMEOUT :: nat where
  "REQUEST_TIMEOUT = 5000"

definition MAX_RETRIES :: nat where
  "MAX_RETRIES = 3"

definition RETRY_DELAYS :: "nat list" where
  "RETRY_DELAYS = [1000, 2000, 4000]"

text \<open>The object literal \<^verbatim>\<open>FALLBACK_PRICES\<close>, its properties in the order they are written.\<close>

definition FALLBACK_PRICES :: "(string \<times> int) list" where
  "FALLBACK_PRICES =
    [
     (''2019-01'', 3600), (''2019-02'', 3800), (''2019-03'', 4000), (''2019-04'', 5200),
     (''2019-05'', 7500), (''2019-06'', 10800), (''2019-07'', 10500), (''2019-08'', 10200),
     (''2019-09'', 8500), (''2019-10'', 8300), (''2019-11'', 7500), (''2019-12'', 7200),
     (''2020-01'', 8500), (''2020-02'', 9500), (''2020-03'', 6500), (''2020-04'', 7500),
     (''2020-05'', 9000), (''2020-06'', 9300), (''2020-07'', 9800), (''2020-08'', 11500),
     (''2020-09'', 10700), (''2020-10'', 13000), (''2020-11'', 17500), (''2020-12'', 24000),
     (''2021-01'', 34000), (''2021-02'', 46000), (''2021-03'', 55000), (''2021-04'', 57000),
     (''2021-05'', 40000), (''2021-06'', 35000), (''2021-07'', 33000), (''2021-08'', 44000),
     (''2021-09'', 45000), (''2021-10'', 55000), (''2021-11'', 60000), (''2021-12'', 48000),
     (''2022-01'', 41500), (''2022-02'', 39500), (''2022-03'', 44000), (''2022-04'', 40000),
     (''2022-05'', 31500), (''2022-06'', 21500), (''2022-07'', 22500), (''2022-08'', 21500),
     (''2022-09'', 19500), (''2022-10'', 20500), (''2022-11'', 17000), (''2022-12'', 16800),
     (''2023-01'', 21500), (''2023-02'', 23500), (''2023-03'', 28000), (''2023-04'', 29500),
     (''2023-05'', 27500), (''2023-06'', 30500), (''2023-07'', 29500), (''2023-08'', 26000),
     (''2023-09'', 27000), (''2023-10'', 34500), (''2023-11'', 37500), (''2023-12'', 42500),
     (''2024-01'', 43000), (''2024-02'', 52000), (''2024-03'', 70000), (''2024-04'', 65000),
     (''2024-05'', 67000), (''2024-06'', 62000), (''2024-07'', 66000), (''2024-08'', 59000),
     (''2024-09'', 63000), (''2024-10'', 68000), (''2024-11'', 90000), (''2024-12'', 97000),
     (''2025-01'', 102000), (''2025-02'', 96000), (''2025-03'', 82000), (''2025-04'', 84000),
     (''2025-05'', 103000), (''2025-06'', 106000), (''2025-07'', 97000), (''2025-08'', 59000),
     (''2025-09'', 63000), (''2025-10'', 69000), (''2025-11'', 96000), (''2025-12'', 94000),
     (''2026-01'', 95000), (''2026-02'', 71000)
    ]"

text \<open>
  \<^verbatim>\<open>Array.prototype.sort\<close> is stable, as \<open>sort_key\<close> is. The default comparison orders
  strings by their code units, which is the lexicographic order of \<open>char list\<close>;
  \<^verbatim>\<open>localeCompare\<close> is taken to be the same order, as it is on month keys, which consist of
  digits and hyphens.
\<close>

definition FALLBACK_ARRAY :: "PricePoint list" where
  "FALLBACK_ARRAY =
     sort_key month (map (\<lambda>(month, price). \<lparr>month = month, price = price\<rparr>) FALLBACK_PRICES)"

text \<open>
  \<^verbatim>\<open>Object.keys(FALLBACK_PRICES).sort().pop()\<close> and the table's value there. The table is a
  non-empty constant, so \<open>last\<close> and \<open>the\<close> are applied where they are defined.
\<close>

definition latestMonth :: string where
  "latestMonth = last (sort (map fst FALLBACK_PRICES))"

definition fallbackCurrentPrice :: CurrentPrice where
  "fallbackCurrentPrice =
     \<lparr>price = the (map_of FALLBACK_PRICES latestMonth), change24h = None, source = None\<rparr>"

section \<open>fetchWithRetry\<close>

text \<open>
  \<^verbatim>\<open>fetchFn\<close> is a thunk with effects; its \<open>k\<close>-th call (counted from 0) has the outcome
  \<open>fetchFn k\<close>. The loop calls it once per iteration, so iteration \<open>attempt\<close> sees
  \<open>fetchFn attempt\<close>. The result pairs what the wrapper returns (\<open>Inr\<close>) or throws
  (\<open>Inl\<close>: the content of \<^verbatim>\<open>lastError\<close>, \<open>None\<close> when it is still \<^verbatim>\<open>undefined\<close>) with the
  events in the order they happen.
\<close>

fun emit :: "event list \<Rightarrow> 'r \<times> event list \<Rightarrow> 'r \<times> event list" where
  "emit evs (r, tr) = (r, evs @ tr)"

function retryFrom ::
  "(nat \<Rightarrow> 'a outcome) \<Rightarrow> string \<Rightarrow> nat \<Rightarrow> jsError option
    \<Rightarrow> (jsError option + 'a) \<times> event list" where
  "retryFrom fetchFn apiName attempt lastError =
     (if attempt \<le> MAX_RETRIES then
        (case fetchFn attempt of
           Truthy result \<Rightarrow> (Inr result, [Invoke apiName])
         | Falsy \<Rightarrow>
             emit [Invoke apiName] (retryFrom fetchFn apiName (attempt + 1) lastError)
         | Throws e \<Rightarrow>
             (if attempt < MAX_RETRIES then
                emit [Invoke apiName, Sleep (RETRY_DELAYS ! attempt)]
                  (retryFrom fetchFn apiName (attempt + 1) (Some e))
              else
                emit [Invoke apiName] (retryFrom fetchFn apiName (attempt + 1) (Some e))))
      else (Inl lastError, []))"
  by pat_completeness auto
termination
  by (relation "measure (\<lambda>(f, n, attempt, e). Suc MAX_RETRIES - attempt)") auto

declare retryFrom.simps [simp del]

definition fetchWithRetry ::
  "(nat \<Rightarrow> 'a outcome) \<Rightarrow> string \<Rightarrow> (jsError option + 'a) \<times> event list" where
  "fetchWithRetry fetchFn apiName = retryFrom fetchFn apiName 0 None"

text \<open>
  A provider adapter (\<^verbatim>\<open>fetchFromCoinCap\<close>, \<^verbatim>\<open>fetchFromBinance\<close>, \<^verbatim>\<open>fetchFromKraken\<close>,
  \<^verbatim>\<open>fetchFromCryptoCompare\<close>) throws or returns an object literal, which is truthy
  whatever its fields hold.
\<close>

fun adapterCall :: "jsError + 'a \<Rightarrow> 'a outcome" where
  "adapterCall (Inl e) = Throws e"
| "adapterCall (Inr obj) = Truthy obj"

definition invocations :: "event list \<Rightarrow> nat" where
  "invocations tr = length (filter (\<lambda>ev. case ev of Invoke n \<Rightarrow> True | _ \<Rightarrow> False) tr)"

section \<open>fetchWithProxyRace\<close>

text \<open>
  The network answers a request for a URL after some milliseconds with a response:
  \<^verbatim>\<open>fetch\<close> rejects (\<open>NetworkError\<close>), or resolves to a response with its \<^verbatim>\<open>ok\<close> flag and
  a body that \<^verbatim>\<open>response.json()\<close> parses (\<open>Some\<close>) or rejects (\<open>None\<close>). The latency counts
  the time until the body is read. \<^verbatim>\<open>AbortSignal.timeout\<close> rejects a request that has not
  finished when the timeout expires.
\<close>

datatype 'b response = NetworkError | Response bool "'b option"

type_synonym 'b network = "string \<Rightarrow> nat \<times> 'b response"

text \<open>One relay's task: when it settles, and as what.\<close>

definition relayTask :: "nat \<Rightarrow> nat \<times> 'b response \<Rightarrow> nat \<times> (jsError + 'b)" where
  "relayTask timeout answer =
     (case answer of (latency, resp) \<Rightarrow>
        if timeout \<le> latency then (timeout, Inl TimeoutError)
        else (latency,
          case resp of
            NetworkError \<Rightarrow> Inl TypeError
          | Response ok body \<Rightarrow>
              if \<not> ok then Inl (Error ''Response not ok'')
              else (case body of None \<Rightarrow> Inl SyntaxError | Some b \<Rightarrow> Inr b)))"

text \<open>
  \<^verbatim>\<open>Promise.any\<close> over promises given by their settling time and result: it fulfils with
  the value of the promise that fulfils first (the earlier in the list when two fulfil at
  the same time) and rejects with an \<^verbatim>\<open>AggregateError\<close> of all the reasons when none
  fulfils.
\<close>

fun fulfilledOf :: "(nat \<times> (jsError + 'b)) list \<Rightarrow> (nat \<times> 'b) list" where
  "fulfilledOf [] = []"
| "fulfilledOf ((t, Inr b) # ps) = (t, b) # fulfilledOf ps"
| "fulfilledOf ((t, Inl e) # ps) = fulfilledOf ps"

fun rejectedOf :: "(nat \<times> (jsError + 'b)) list \<Rightarrow> jsError list" where
  "rejectedOf [] = []"
| "rejectedOf ((t, Inr b) # ps) = rejectedOf ps"
| "rejectedOf ((t, Inl e) # ps) = e # rejectedOf ps"

fun firstOf :: "nat \<times> 'b \<Rightarrow> (nat \<times> 'b) list \<Rightarrow> nat \<times> 'b" where
  "firstOf best [] = best"
| "firstOf best (c # cs) = firstOf (if fst c < fst best then c else best) cs"

definition Promise_any :: "(nat \<times> (jsError + 'b)) list \<Rightarrow> jsError + 'b" where
  "Promise_any ps =
     (case fulfilledOf ps of
        [] \<Rightarrow> Inl (AggregateError (rejectedOf ps))
      | c # cs \<Rightarrow> Inr (snd (firstOf c cs)))"

text \<open>\<^verbatim>\<open>encodeURIComponent\<close> is a parameter, \<open>enc\<close>.\<close>

definition proxyUrl :: "(string \<Rightarrow> string) \<Rightarrow> string \<Rightarrow> string \<Rightarrow> string" where
  "proxyUrl enc url proxy = (if CHR ''?'' \<in> set proxy then proxy @ enc url else proxy @ url)"

definition fetchWithProxyRace ::
  "(string \<Rightarrow> string) \<Rightarrow> 'b network \<Rightarrow> string \<Rightarrow> nat \<Rightarrow> jsError + 'b" where
  "fetchWithProxyRace enc net url timeout =
     Promise_any (map (\<lambda>proxy. relayTask timeout (net (proxyUrl enc url proxy))) CORS_PROXIES)"

section \<open>Month keys\<close>

text \<open>
  \<^verbatim>\<open>Math.round\<close> rounds to the nearest integer, a tie towards \<open>+\<infinity>\<close>.
\<close>

definition jsRound :: "rat \<Rightarrow> int" where
  "jsRound x = \<lfloor>x + 1 / 2\<rfloor>"

text \<open>\<^verbatim>\<open>String(n)\<close> for an integer: its decimal digits, after a minus sign when negative.\<close>

definition digitChar :: "nat \<Rightarrow> char" where
  "digitChar d = ''0123456789'' ! d"

function showNat :: "nat \<Rightarrow> string" where
  "showNat n = (if n < 10 then [digitChar n] else showNat (n div 10) @ [digitChar (n mod 10)])"
  by pat_completeness auto
termination
  by (relation "measure id") auto

declare showNat.simps [simp del]

definition jsString :: "int \<Rightarrow> string" where
  "jsString i = (if i < 0 then CHR ''-'' # showNat (nat (- i)) else showNat (nat i))"

definition padStart :: "nat \<Rightarrow> char \<Rightarrow> string \<Rightarrow> string" where
  "padStart targetLength c s = replicate (targetLength - length s) c @ s"

text \<open>
  The host's \<^verbatim>\<open>Date\<close> is a parameter: \<open>D timestamp\<close> is the pair of
  \<^verbatim>\<open>getFullYear()\<close> and \<^verbatim>\<open>getMonth()\<close> (from 0) of \<^verbatim>\<open>new Date(timestamp)\<close> in the host's time
  zone.
\<close>

type_synonym dateEnv = "int \<Rightarrow> int \<times> nat"

definition monthKeyOf :: "int \<times> nat \<Rightarrow> string" where
  "monthKeyOf ym =
     (case ym of (fullYear, mon) \<Rightarrow>
        jsString fullYear @ ''-'' @ padStart 2 (CHR ''0'') (jsString (int mon + 1)))"

text \<open>
  A host whose time zone is UTC: the day number is turned into a date of the proleptic
  Gregorian calendar, counting in 400-year eras that start on 1 March.
\<close>

definition civilFromDays :: "int \<Rightarrow> int \<times> nat" where
  "civilFromDays days =
     (let z = days + 719468;
          era = z div 146097;
          doe = z mod 146097;
          yoe = (doe - doe div 1460 + doe div 36524 - doe div 146096) div 365;
          doy = doe - (365 * yoe + yoe div 4 - yoe div 100);
          mp = (5 * doy + 2) div 153;
          m = (if mp < 10 then mp + 3 else mp - 9);
          y = yoe + era * 400
      in (if m \<le> 2 then y + 1 else y, nat (m - 1)))"

definition utcDate :: dateEnv where
  "utcDate timestamp = civilFromDays (timestamp div 86400000)"

section \<open>Monthly bucketing\<close>

text \<open>
  An element of \<^verbatim>\<open>historyData.prices\<close>: a pair \<^verbatim>\<open>[timestamp, price]\<close>, or a value that the
  destructuring parameter \<^verbatim>\<open>([timestamp, price])\<close> cannot take apart (\<^verbatim>\<open>null\<close>), on which
  the callback throws a \<^verbatim>\<open>TypeError\<close>.
\<close>

datatype rawSample = Sample int rat | Malformed

text \<open>
  \<^verbatim>\<open>monthlyPrices\<close> is an object used as a dictionary; its properties are kept in insertion
  order, each holding the pair of \<^verbatim>\<open>sum\<close> and \<^verbatim>\<open>count\<close>.
\<close>

type_synonym monthly = "(string \<times> rat \<times> nat) list"

definition addSample :: "dateEnv \<Rightarrow> monthly \<Rightarrow> int \<Rightarrow> rat \<Rightarrow> monthly" where
  "addSample D monthlyPrices timestamp p =
     (let monthKey = monthKeyOf (D timestamp);
          created =
            (if map_of monthlyPrices monthKey = None
             then monthlyPrices @ [(monthKey, (0, 0))] else monthlyPrices)
      in map (\<lambda>(k, (s, c)). if k = monthKey then (k, (s + p, c + 1)) else (k, (s, c))) created)"

fun forEachSample :: "dateEnv \<Rightarrow> rawSample list \<Rightarrow> monthly \<Rightarrow> jsError + monthly" where
  "forEachSample D [] monthlyPrices = Inr monthlyPrices"
| "forEachSample D (Sample timestamp p # rest) monthlyPrices =
     forEachSample D rest (addSample D monthlyPrices timestamp p)"
| "forEachSample D (Malformed # rest) monthlyPrices = Inl TypeError"

definition toProcessed :: "monthly \<Rightarrow> PricePoint list" where
  "toProcessed monthlyPrices =
     sort_key month
       (map (\<lambda>(month, (s, c)). \<lparr>month = month, price = jsRound (s / of_nat c)\<rparr>) monthlyPrices)"

definition monthlyAverages :: "dateEnv \<Rightarrow> rawSample list \<Rightarrow> jsError + PricePoint list" where
  "monthlyAverages D prices =
     (case forEachSample D prices [] of
        Inl e \<Rightarrow> Inl e
      | Inr monthlyPrices \<Rightarrow> Inr (toProcessed monthlyPrices))"

section \<open>fetchCurrentPrice and fetchHistoricalData\<close>

text \<open>
  The four direct providers, each given by the outcomes of the successive calls of its
  adapter. The CoinGecko body maps a coin id to its \<^verbatim>\<open>usd\<close> and \<^verbatim>\<open>usd_24h_change\<close>.
\<close>

record providers =
  fetchFromCoinCap :: "nat \<Rightarrow> jsError + CurrentPrice"
  fetchFromBinance :: "nat \<Rightarrow> jsError + CurrentPrice"
  fetchFromKraken :: "nat \<Rightarrow> jsError + CurrentPrice"
  fetchFromCryptoCompare :: "nat \<Rightarrow> jsError + CurrentPrice"

type_synonym coinData = "string \<Rightarrow> (rat \<times> rat option) option"

text \<open>
  One \<^verbatim>\<open>try { ... } catch { ... }\<close> block of the chain: the wrapper's result is returned
  when its \<^verbatim>\<open>price\<close> is truthy (not \<^verbatim>\<open>0\<close>); otherwise, and when the wrapper throws, control
  falls through to the rest of the chain.
\<close>

definition tryProvider ::
  "(nat \<Rightarrow> jsError + CurrentPrice) \<Rightarrow> string \<Rightarrow> CurrentPrice option \<times> event list
    \<Rightarrow> CurrentPrice option \<times> event list" where
  "tryProvider fetchFn apiName rest =
     (case fetchWithRetry (\<lambda>k. adapterCall (fetchFn k)) apiName of
        (Inr result, tr) \<Rightarrow>
          if CurrentPrice.price result \<noteq> 0 then (Some result, tr) else emit tr rest
      | (Inl thrown, tr) \<Rightarrow> emit tr rest)"

definition priceUrl :: "string \<Rightarrow> string" where
  "priceUrl coin =
     COINGECKO_API @ ''/simple/price?ids='' @ coin
       @ ''&vs_currencies=usd&include_24hr_change=true''"

definition tryCoinGecko ::
  "(string \<Rightarrow> string) \<Rightarrow> coinData network \<Rightarrow> string \<Rightarrow> CurrentPrice option \<times> event list" where
  "tryCoinGecko enc net coin =
     (case fetchWithProxyRace enc net (priceUrl coin) REQUEST_TIMEOUT of
        Inr data \<Rightarrow>
          (case data coin of
             Some (usd, usd_24h_change) \<Rightarrow>
               (Some \<lparr>price = jsRound usd, change24h = usd_24h_change,
                   source = Some ''coingecko''\<rparr>,
                [Race (priceUrl coin)])
           | None \<Rightarrow> (None, [Race (priceUrl coin)]))
      | Inl thrown \<Rightarrow> (None, [Race (priceUrl coin)]))"

definition fetchCurrentPrice ::
  "providers \<Rightarrow> (string \<Rightarrow> string) \<Rightarrow> coinData network \<Rightarrow> string
    \<Rightarrow> CurrentPrice option \<times> event list" where
  "fetchCurrentPrice P enc net coin =
     tryProvider (fetchFromCoinCap P) ''CoinCap''
       (tryProvider (fetchFromBinance P) ''Binance''
          (tryProvider (fetchFromKraken P) ''Kraken''
             (tryProvider (fetchFromCryptoCompare P) ''CryptoCompare''
                (tryCoinGecko enc net coin))))"

text \<open>The body of the chart endpoint: its \<^verbatim>\<open>prices\<close> property, when it has one.\<close>

definition apiUrl :: "string \<Rightarrow> nat \<Rightarrow> string" where
  "apiUrl coin days =
     COINGECKO_API @ ''/coins/'' @ coin @ ''/market_chart?vs_currency=usd&days=''
       @ showNat days @ ''&interval=daily''"

definition fetchHistoricalData ::
  "(string \<Rightarrow> string) \<Rightarrow> rawSample list option network \<Rightarrow> string \<Rightarrow> nat
    \<Rightarrow> rawSample list option" where
  "fetchHistoricalData enc net coin days =
     (case fetchWithProxyRace enc net (apiUrl coin days) 8000 of
        Inr data \<Rightarrow>
          (case data of
             Some prices \<Rightarrow> if length prices > 0 then Some prices else None
           | None \<Rightarrow> None)
      | Inl thrown \<Rightarrow> None)"

section \<open>The cache store\<close>

text \<open>
  What \<^verbatim>\<open>localStorage\<close> holds under a key is text. The text that \<^verbatim>\<open>JSON.stringify\<close> makes of
  \<^verbatim>\<open>{ data: { priceData, currentPrice }, timestamp }\<close> is \<open>Stored\<close>, which \<^verbatim>\<open>JSON.parse\<close>
  reads back; any other text is \<open>Unparsable\<close>, or the empty string. Access to the storage
  can throw (storage disabled, quota exceeded): \<open>getItemThrows\<close> and \<open>setItemThrows\<close> say
  whether it does.
\<close>

type_synonym snapshot = "PricePoint list \<times> CurrentPrice"

datatype item = EmptyText | Unparsable | Stored snapshot int

record storage =
  items :: "string \<Rightarrow> item option"
  getItemThrows :: bool
  setItemThrows :: bool

definition getItem :: "storage \<Rightarrow> string \<Rightarrow> jsError + item option" where
  "getItem st k = (if getItemThrows st then Inl StorageError else Inr (items st k))"

definition setItem :: "storage \<Rightarrow> string \<Rightarrow> item \<Rightarrow> jsError + storage" where
  "setItem st k v =
     (if setItemThrows st then Inl StorageError else Inr (st\<lparr>items := (items st)(k \<mapsto> v)\<rparr>))"

definition JSON_parse :: "item \<Rightarrow> jsError + snapshot \<times> int" where
  "JSON_parse it =
     (case it of Stored data timestamp \<Rightarrow> Inr (data, timestamp) | _ \<Rightarrow> Inl SyntaxError)"

text \<open>
  The \<^verbatim>\<open>try\<close> block of \<^verbatim>\<open>loadFromCache\<close>: \<open>Inr (Some data)\<close> is its \<^verbatim>\<open>return data\<close>,
  \<open>Inr None\<close> is leaving the block at its end, \<open>Inl\<close> a throw inside it.
\<close>

definition loadAttempt :: "int \<Rightarrow> storage \<Rightarrow> jsError + snapshot option" where
  "loadAttempt now st =
     (case getItem st CACHE_KEY of
        Inl e \<Rightarrow> Inl e
      | Inr None \<Rightarrow> Inr None
      | Inr (Some EmptyText) \<Rightarrow> Inr None
      | Inr (Some cached) \<Rightarrow>
          (case JSON_parse cached of
             Inl e \<Rightarrow> Inl e
           | Inr (data, timestamp) \<Rightarrow>
               if now - timestamp < CACHE_TTL then Inr (Some data) else Inr None))"

text \<open>
  Both cache functions return what the caller sees (\<open>Inl\<close> would be an exception that
  reaches it) and the storage they leave. \<open>now\<close> is \<^verbatim>\<open>Date.now()\<close>.
\<close>

definition loadFromCache :: "int \<Rightarrow> storage \<Rightarrow> (jsError + snapshot option) \<times> storage" where
  "loadFromCache now st =
     (case loadAttempt now st of
        Inr (Some data) \<Rightarrow> (Inr (Some data), st)
      | Inr None \<Rightarrow> (Inr None, st)
      | Inl caught \<Rightarrow> (Inr None, st))"

definition saveToCache ::
  "int \<Rightarrow> PricePoint list \<Rightarrow> CurrentPrice \<Rightarrow> storage \<Rightarrow> (jsError + unit) \<times> storage" where
  "saveToCache now priceData currentPrice st =
     (case setItem st CACHE_KEY (Stored (priceData, currentPrice) now) of
        Inr st' \<Rightarrow> (Inr (), st')
      | Inl caught \<Rightarrow> (Inr (), st))"

section \<open>The hook\<close>

text \<open>
  The state of one \<^verbatim>\<open>useCryptoPriceV2\<close> instance: its seven \<^verbatim>\<open>useState\<close> cells, the
  \<^verbatim>\<open>isFetching\<close> ref and the storage it reads and writes. Three counters instrument it:
  the calls of \<^verbatim>\<open>fetchCurrentPrice\<close> and \<^verbatim>\<open>fetchHistoricalData\<close>, and the cycles that have
  passed the guard and not yet reached their \<^verbatim>\<open>finally\<close> block.
\<close>

record hook =
  priceData :: "PricePoint list"
  currentPrice :: "CurrentPrice option"
  loading :: bool
  error :: "string option"
  lastUpdated :: "int option"
  isLive :: bool
  dataSource :: "string option"
  isFetching :: bool
  localStorage :: storage
  fetchCurrentPriceCalls :: nat
  fetchHistoricalDataCalls :: nat
  cyclesRunning :: nat

definition initialHook :: "storage \<Rightarrow> hook" where
  "initialHook st =
     \<lparr>priceData = [], currentPrice = None, loading = True, error = None, lastUpdated = None,
      isLive = False, dataSource = None, isFetching = False, localStorage = st,
      fetchCurrentPriceCalls = 0, fetchHistoricalDataCalls = 0, cyclesRunning = 0\<rparr>"

text \<open>The first effect: hydration from the cache.\<close>

definition hydrate :: "int \<Rightarrow> hook \<Rightarrow> hook" where
  "hydrate now s =
     (case fst (loadFromCache now (localStorage s)) of
        Inr (Some (cachedData, cachedPrice)) \<Rightarrow>
          s\<lparr>priceData := cachedData, currentPrice := Some cachedPrice, loading := False,
            isLive := True, dataSource := Some ''cache''\<rparr>
      | _ \<Rightarrow> s)"

text \<open>
  \<^verbatim>\<open>fetchPriceData\<close> runs in two uninterrupted parts: from the call to the
  \<^verbatim>\<open>await Promise.allSettled\<close>, which starts the two fetches, and from the moment both
  have settled to the end of \<^verbatim>\<open>finally\<close>.
\<close>

definition fetchPriceData_begin :: "hook \<Rightarrow> hook" where
  "fetchPriceData_begin s =
     (if isFetching s then s
      else s\<lparr>isFetching := True,
             fetchCurrentPriceCalls := fetchCurrentPriceCalls s + 1,
             fetchHistoricalDataCalls := fetchHistoricalDataCalls s + 1,
             cyclesRunning := cyclesRunning s + 1\<rparr>)"

datatype 'a settled = Fulfilled 'a | Rejected jsError

type_synonym priceResult = "CurrentPrice option settled"

type_synonym historyResult = "rawSample list option settled"

text \<open>\<^verbatim>\<open>result.status === 'fulfilled' && result.value\<close>\<close>

fun settledValue :: "'a option settled \<Rightarrow> 'a option" where
  "settledValue (Fulfilled v) = v"
| "settledValue (Rejected e) = None"

definition processCurrent :: "priceResult \<Rightarrow> hook \<Rightarrow> bool \<times> hook" where
  "processCurrent priceResult s =
     (case settledValue priceResult of
        Some v \<Rightarrow>
          (True,
           s\<lparr>currentPrice := Some v, isLive := True,
             dataSource :=
               Some (case source v of
                       Some src \<Rightarrow> if src = [] then ''api'' else src
                     | None \<Rightarrow> ''api'')\<rparr>)
      | None \<Rightarrow> (False, s))"

text \<open>\<^verbatim>\<open>historyData.prices[historyData.prices.length - 1]\<close>, \<^verbatim>\<open>undefined\<close> on an empty array.\<close>

definition latestOf :: "rawSample list \<Rightarrow> rawSample option" where
  "latestOf prices = (if prices = [] then None else Some (last prices))"

text \<open>The second argument of the call of \<^verbatim>\<open>saveToCache\<close>; indexing a missing element throws.\<close>

definition cachedPriceOf :: "priceResult \<Rightarrow> rawSample list \<Rightarrow> jsError + CurrentPrice" where
  "cachedPriceOf priceResult prices =
     (case settledValue priceResult of
        Some v \<Rightarrow> Inr v
      | None \<Rightarrow>
          (case latestOf prices of
             Some (Sample timestamp p) \<Rightarrow>
               Inr \<lparr>price = jsRound p, change24h = None, source = None\<rparr>
           | _ \<Rightarrow> Inl TypeError))"

text \<open>
  The block that handles \<^verbatim>\<open>historyResult\<close>: \<open>Inr gotHistoricalData\<close> with the state it
  leaves, or \<open>Inl\<close> for a throw.
\<close>

definition processHistory ::
  "dateEnv \<Rightarrow> int \<Rightarrow> bool \<Rightarrow> priceResult \<Rightarrow> historyResult \<Rightarrow> hook \<Rightarrow> (jsError + bool) \<times> hook" where
  "processHistory D now gotLivePrice priceResult historyResult s =
     (case settledValue historyResult of
        None \<Rightarrow> (Inr False, s)
      | Some prices \<Rightarrow>
          (case forEachSample D prices [] of
             Inl e \<Rightarrow> (Inl e, s)
           | Inr monthlyPrices \<Rightarrow>
               (let processed = toProcessed monthlyPrices in
                if length processed > 0 then
                  (let s1 = s\<lparr>priceData := processed\<rparr>;
                       s2 = (if \<not> gotLivePrice then
                               (case latestOf prices of
                                  Some (Sample timestamp p) \<Rightarrow>
                                    s1\<lparr>currentPrice :=
                                         Some \<lparr>price = jsRound p, change24h = None, source = None\<rparr>,
                                       isLive := True\<rparr>
                                | _ \<Rightarrow> s1\<lparr>isLive := True\<rparr>)
                             else s1)
                   in case cachedPriceOf priceResult prices of
                        Inl e \<Rightarrow> (Inl e, s2)
                      | Inr toCache \<Rightarrow>
                          (Inr True,
                           s2\<lparr>localStorage :=
                                snd (saveToCache now processed toCache (localStorage s2))\<rparr>))
                else (Inr False, s))))"

definition useFallback :: "bool \<Rightarrow> hook \<Rightarrow> hook" where
  "useFallback gotLivePrice s =
     (let s1 = s\<lparr>priceData := FALLBACK_ARRAY\<rparr>
      in if \<not> gotLivePrice
         then s1\<lparr>currentPrice := Some fallbackCurrentPrice, dataSource := Some ''fallback''\<rparr>
         else s1)"

text \<open>The \<^verbatim>\<open>try\<close> block: the error it throws, if any, and the state it leaves.\<close>

definition tryBlock ::
  "dateEnv \<Rightarrow> int \<Rightarrow> priceResult \<Rightarrow> historyResult \<Rightarrow> hook \<Rightarrow> jsError option \<times> hook" where
  "tryBlock D now priceResult historyResult s =
     (case processCurrent priceResult s of (gotLivePrice, s1) \<Rightarrow>
        (case processHistory D now gotLivePrice priceResult historyResult s1 of
           (Inl e, s2) \<Rightarrow> (Some e, s2)
         | (Inr gotHistoricalData, s2) \<Rightarrow>
             (let s3 = (if \<not> gotHistoricalData then useFallback gotLivePrice s2 else s2)
              in (None,
                  s3\<lparr>isLive := gotLivePrice \<or> gotHistoricalData, lastUpdated := Some now,
                     error := None\<rparr>))))"

definition catchBlock :: "int \<Rightarrow> hook \<Rightarrow> hook" where
  "catchBlock now s =
     s\<lparr>priceData := FALLBACK_ARRAY, currentPrice := Some fallbackCurrentPrice, isLive := False,
       dataSource := Some ''fallback'', lastUpdated := Some now, error := None\<rparr>"

definition finallyBlock :: "hook \<Rightarrow> hook" where
  "finallyBlock s =
     s\<lparr>loading := False, isFetching := False, cyclesRunning := cyclesRunning s - 1\<rparr>"

definition fetchPriceData_resume ::
  "dateEnv \<Rightarrow> int \<Rightarrow> priceResult \<Rightarrow> historyResult \<Rightarrow> hook \<Rightarrow> hook" where
  "fetchPriceData_resume D now priceResult historyResult s =
     finallyBlock
       (case tryBlock D now priceResult historyResult s of
          (Some err, s') \<Rightarrow> catchBlock now s'
        | (None, s') \<Rightarrow> s')"

section \<open>The hook as a transition system\<close>

text \<open>
  What can happen to a mounted hook: the interval timer fires or the caller uses
  \<^verbatim>\<open>refetch\<close> (both call \<^verbatim>\<open>fetchPriceData\<close>); the two fetches of the running cycle settle,
  at some time with some results; the storage starts or stops failing.
\<close>

datatype action =
    Tick
  | Refetch
  | Settle int priceResult historyResult
  | StorageMode bool bool

fun step :: "dateEnv \<Rightarrow> hook \<Rightarrow> action \<Rightarrow> hook" where
  "step D s Tick = fetchPriceData_begin s"
| "step D s Refetch = fetchPriceData_begin s"
| "step D s (Settle now priceResult historyResult) =
     (if cyclesRunning s > 0 then fetchPriceData_resume D now priceResult historyResult s else s)"
| "step D s (StorageMode g w) =
     s\<lparr>localStorage := (localStorage s)\<lparr>getItemThrows := g, setItemThrows := w\<rparr>\<rparr>"

text \<open>Mounting runs the hydration effect and then the effect that starts the first cycle.\<close>

definition mount :: "int \<Rightarrow> storage \<Rightarrow> hook" where
  "mount now st = fetchPriceData_begin (hydrate now (initialHook st))"

definition run :: "dateEnv \<Rightarrow> hook \<Rightarrow> action list \<Rightarrow> hook" where
  "run D s acts = foldl (step D) s acts"

section \<open>Ordered series and non-negative prices\<close>





section \<open>Example inputs\<close>

text \<open>A snapshot and a storage that holds it, written at time 1000.\<close>

definition exampleSnapshot :: snapshot where
  "exampleSnapshot =
     ([\<lparr>month = ''2024-01'', price = 43200\<rparr>],
      \<lparr>price = 43400, change24h = None, source = None\<rparr>)"

definition exampleStorage :: storage where
  "exampleStorage =
     \<lparr>items = Map.empty(CACHE_KEY \<mapsto> Stored exampleSnapshot 1000),
      getItemThrows = False, setItemThrows = False\<rparr>"

text \<open>
  Three relays asked for \<^verbatim>\<open>target\<close>: the first fails after 20 ms, the second answers 42
  after 300 ms, the third answers 43 after 500 ms.
\<close>

definition exampleRelays :: "nat network" where
  "exampleRelays u =
     (if u = ''https://corsproxy.io/?target'' then (20, NetworkError)
      else if u = ''https://api.allorigins.win/raw?url=target'' then (300, Response True (Some 42))
      else (500, Response True (Some 43)))"

text \<open>
  CoinCap answers with the price 0 and Binance with 50000; Kraken and CryptoCompare time
  out.
\<close>

definition zeroPriceProviders :: providers where
  "zeroPriceProviders =
     \<lparr>fetchFromCoinCap = (\<lambda>k. Inr \<lparr>price = 0, change24h = Some 0, source = Some ''coincap''\<rparr>),
      fetchFromBinance = (\<lambda>k. Inr \<lparr>price = 50000, change24h = None, source = Some ''binance''\<rparr>),
      fetchFromKraken = (\<lambda>k. Inl TimeoutError),
      fetchFromCryptoCompare = (\<lambda>k. Inl TimeoutError)\<rparr>"

text \<open>CoinCap is down, Binance answers with 50000.\<close>

definition coinCapDown :: providers where
  "coinCapDown =
     \<lparr>fetchFromCoinCap = (\<lambda>k. Inl (Error ''CoinCap API error: 503'')),
      fetchFromBinance = (\<lambda>k. Inr \<lparr>price = 50000, change24h = None, source = Some ''binance''\<rparr>),
      fetchFromKraken = (\<lambda>k. Inl TimeoutError),
      fetchFromCryptoCompare = (\<lambda>k. Inl TimeoutError)\<rparr>"

text \<open>A network on which every request fails at once.\<close>

definition offline :: "'b network" where
  "offline u = (0, NetworkError)"

text \<open>A storage that holds nothing and never fails.\<close>

definition emptyStorage :: storage where
  "emptyStorage = \<lparr>items = Map.empty, getItemThrows = False, setItemThrows = False\<rparr>"

text \<open>Binance's answer.\<close>

definition binancePrice :: CurrentPrice where
  "binancePrice = \<lparr>price = 50000, change24h = None, source = Some ''binance''\<rparr>"



section \<open>Properties of the retry wrapper\<close>

lemma retryFrom_past_end:
  "MAX_RETRIES < attempt \<Longrightarrow> retryFrom fetchFn apiName attempt lastError = (Inl lastError, [])"
  by (simp add: retryFrom.simps)

lemma retryFrom_Truthy:
  "attempt \<le> MAX_RETRIES \<Longrightarrow> fetchFn attempt = Truthy r
    \<Longrightarrow> retryFrom fetchFn apiName attempt lastError = (Inr r, [Invoke apiName])"
  by (simp add: retryFrom.simps)

lemma retryFrom_Falsy:
  "attempt \<le> MAX_RETRIES \<Longrightarrow> fetchFn attempt = Falsy
    \<Longrightarrow> retryFrom fetchFn apiName attempt lastError
      = emit [Invoke apiName] (retryFrom fetchFn apiName (Suc attempt) lastError)"
  by (simp add: retryFrom.simps)

lemma retryFrom_Throws:
  "attempt < MAX_RETRIES \<Longrightarrow> fetchFn attempt = Throws e
    \<Longrightarrow> retryFrom fetchFn apiName attempt lastError
      = emit [Invoke apiName, Sleep (RETRY_DELAYS ! attempt)]
          (retryFrom fetchFn apiName (Suc attempt) (Some e))"
  by (simp add: retryFrom.simps)

lemma retryFrom_Throws_last:
  "fetchFn MAX_RETRIES = Throws e
    \<Longrightarrow> retryFrom fetchFn apiName MAX_RETRIES lastError = (Inl (Some e), [Invoke apiName])"
  by (simp add: retryFrom.simps [of _ _ MAX_RETRIES] retryFrom_past_end)

text \<open>
  C10. If the wrapped function returns a falsy value on each of its four calls and never
  throws, the wrapper makes all four attempts, sleeps between none of them, and throws
  the never-assigned \<^verbatim>\<open>lastError\<close>, that is \<^verbatim>\<open>undefined\<close>.
\<close>

theorem fetchWithRetry_all_falsy:
  assumes "\<forall>k \<le> MAX_RETRIES. fetchFn k = Falsy"
  shows "fetchWithRetry fetchFn apiName
    = (Inl None, [Invoke apiName, Invoke apiName, Invoke apiName, Invoke apiName])"
proof -
  have le: "0 \<le> MAX_RETRIES" "Suc 0 \<le> MAX_RETRIES" "Suc (Suc 0) \<le> MAX_RETRIES"
    "Suc (Suc (Suc 0)) \<le> MAX_RETRIES" "MAX_RETRIES < Suc (Suc (Suc (Suc 0)))"
    by (simp_all add: MAX_RETRIES_def)
  have f: "fetchFn 0 = Falsy" "fetchFn (Suc 0) = Falsy" "fetchFn (Suc (Suc 0)) = Falsy"
    "fetchFn (Suc (Suc (Suc 0))) = Falsy"
    using assms le by blast+
  show ?thesis
    unfolding fetchWithRetry_def
    by (simp add: retryFrom_Falsy retryFrom_past_end le f)
qed

theorem fetchWithRetry_all_falsy_witness:
  "fetchWithRetry (\<lambda>k. Falsy :: unit outcome) ''CoinCap''
     = (Inl None, [Invoke ''CoinCap'', Invoke ''CoinCap'', Invoke ''CoinCap'', Invoke ''CoinCap''])"
  using fetchWithRetry_all_falsy [of "\<lambda>k. Falsy :: unit outcome" "''CoinCap''"] by simp

lemma invocations_simps [simp]:
  "invocations [] = 0"
  "invocations (Invoke n # tr) = Suc (invocations tr)"
  "invocations (Sleep d # tr) = invocations tr"
  "invocations (Race u # tr) = invocations tr"
  by (simp_all add: invocations_def)

lemma invocations_append [simp]: "invocations (xs @ ys) = invocations xs + invocations ys"
  by (simp add: invocations_def)

lemma fst_emit [simp]: "fst (emit evs x) = fst x"
  by (cases x) simp

lemma snd_emit [simp]: "snd (emit evs x) = evs @ snd x"
  by (cases x) simp

lemma retryFrom_invocations:
  "invocations (snd (retryFrom fetchFn apiName attempt lastError)) \<le> Suc MAX_RETRIES - attempt"
proof (induction fetchFn apiName attempt lastError rule: retryFrom.induct)
  case (1 fetchFn apiName attempt lastError)
  show ?case
  proof (cases "attempt \<le> MAX_RETRIES")
    case False
    then show ?thesis by (simp add: retryFrom.simps [of _ _ attempt])
  next
    case le: True
    show ?thesis
    proof (cases "fetchFn attempt")
      case (Truthy r)
      with le show ?thesis by (simp add: retryFrom.simps [of _ _ attempt])
    next
      case Falsy
      have "invocations (snd (retryFrom fetchFn apiName (attempt + 1) lastError))
          \<le> Suc MAX_RETRIES - (attempt + 1)"
        using "1.IH"(3) [OF le Falsy] .
      with le Falsy show ?thesis
        by (simp add: retryFrom.simps [of _ _ attempt])
    next
      case (Throws e)
      show ?thesis
      proof (cases "attempt < MAX_RETRIES")
        case True
        have "invocations (snd (retryFrom fetchFn apiName (attempt + 1) (Some e)))
            \<le> Suc MAX_RETRIES - (attempt + 1)"
          using "1.IH"(1) [OF le Throws True] .
        with le Throws True show ?thesis
          by (simp add: retryFrom.simps [of _ _ attempt])
      next
        case False
        have "invocations (snd (retryFrom fetchFn apiName (attempt + 1) (Some e)))
            \<le> Suc MAX_RETRIES - (attempt + 1)"
          using "1.IH"(2) [OF le Throws False] .
        with le Throws False show ?thesis
          by (subst retryFrom.simps) simp
      qed
    qed
  qed
qed


lemma retryFrom_first_truthy:
  "attempt \<le> k \<Longrightarrow> k \<le> MAX_RETRIES \<Longrightarrow> fetchFn k = Truthy r
    \<Longrightarrow> \<forall>j. attempt \<le> j \<and> j < k \<longrightarrow> (\<forall>x. fetchFn j \<noteq> Truthy x)
    \<Longrightarrow> fst (retryFrom fetchFn apiName attempt lastError) = Inr r
      \<and> invocations (snd (retryFrom fetchFn apiName attempt lastError)) = Suc k - attempt"
proof (induction "k - attempt" arbitrary: attempt lastError)
  case 0
  then have "attempt = k" by simp
  with 0 show ?case by (simp add: retryFrom_Truthy)
next
  case (Suc n)
  then have lt: "attempt < k" and le: "attempt \<le> MAX_RETRIES" and ltm: "attempt < MAX_RETRIES"
    by simp_all
  have nt: "\<forall>x. fetchFn attempt \<noteq> Truthy x"
    using Suc.prems(4) lt by simp
  have step: "fst (retryFrom fetchFn apiName (Suc attempt) le') = Inr r
      \<and> invocations (snd (retryFrom fetchFn apiName (Suc attempt) le')) = Suc k - Suc attempt"
    for le'
    using Suc.hyps(1) [of "Suc attempt" le'] Suc.hyps(2) Suc.prems lt by simp
  show ?case
  proof (cases "fetchFn attempt")
    case (Truthy x)
    with nt show ?thesis by simp
  next
    case Falsy
    with le lt step [of lastError] show ?thesis
      by (simp add: retryFrom_Falsy)
  next
    case (Throws e)
    with ltm lt step [of "Some e"] show ?thesis
      by (simp add: retryFrom_Throws)
  qed
qed

lemma retryFrom_fails:
  "fst (retryFrom fetchFn apiName attempt lastError) = Inl err \<Longrightarrow> attempt \<le> k
    \<Longrightarrow> k \<le> MAX_RETRIES \<Longrightarrow> \<forall>x. fetchFn k \<noteq> Truthy x"
proof (induction fetchFn apiName attempt lastError rule: retryFrom.induct)
  case (1 fetchFn apiName attempt lastError)
  then have le: "attempt \<le> MAX_RETRIES" by simp
  show ?case
  proof (cases "fetchFn attempt")
    case (Truthy r)
    with le "1.prems"(1) show ?thesis by (simp add: retryFrom_Truthy)
  next
    case Falsy
    have "fst (retryFrom fetchFn apiName (attempt + 1) lastError) = Inl err"
      using "1.prems"(1) le Falsy by (simp add: retryFrom_Falsy)
    from "1.IH"(3) [OF le Falsy this] "1.prems"(2,3) Falsy show ?thesis
      by (cases "k = attempt") auto
  next
    case (Throws e)
    show ?thesis
    proof (cases "attempt < MAX_RETRIES")
      case True
      have "fst (retryFrom fetchFn apiName (attempt + 1) (Some e)) = Inl err"
        using "1.prems"(1) True Throws by (simp add: retryFrom_Throws)
      from "1.IH"(1) [OF le Throws True this] "1.prems"(2,3) Throws show ?thesis
        by (cases "k = attempt") auto
    next
      case False
      with le "1.prems"(2,3) have "k = attempt" by simp
      with Throws show ?thesis by simp
    qed
  qed
qed


lemma retryFrom_all_attempts:
  "\<forall>k. attempt \<le> k \<and> k \<le> MAX_RETRIES \<longrightarrow> (\<forall>x. fetchFn k \<noteq> Truthy x)
    \<Longrightarrow> invocations (snd (retryFrom fetchFn apiName attempt lastError)) = Suc MAX_RETRIES - attempt"
proof (induction fetchFn apiName attempt lastError rule: retryFrom.induct)
  case (1 fetchFn apiName attempt lastError)
  show ?case
  proof (cases "attempt \<le> MAX_RETRIES")
    case False
    then show ?thesis by (simp add: retryFrom_past_end)
  next
    case le: True
    have rest: "\<forall>k. attempt + 1 \<le> k \<and> k \<le> MAX_RETRIES \<longrightarrow> (\<forall>x. fetchFn k \<noteq> Truthy x)"
      using "1.prems" by simp
    show ?thesis
    proof (cases "fetchFn attempt")
      case (Truthy r)
      with le "1.prems" show ?thesis by blast
    next
      case Falsy
      from "1.IH"(3) [OF le Falsy rest] le Falsy show ?thesis
        by (simp add: retryFrom_Falsy)
    next
      case (Throws e)
      show ?thesis
      proof (cases "attempt < MAX_RETRIES")
        case True
        from "1.IH"(1) [OF le Throws True rest] True Throws show ?thesis
          by (simp add: retryFrom_Throws)
      next
        case False
        with le have "attempt = MAX_RETRIES" by simp
        with Throws show ?thesis by (simp add: retryFrom_Throws_last)
      qed
    qed
  qed
qed

lemma RETRY_DELAYS_nth:
  "RETRY_DELAYS ! 0 = 1000" "RETRY_DELAYS ! Suc 0 = 2000" "RETRY_DELAYS ! Suc (Suc 0) = 4000"
  by (simp_all add: RETRY_DELAYS_def)

lemma MAX_RETRIES_bounds:
  "0 < MAX_RETRIES" "Suc 0 < MAX_RETRIES" "Suc (Suc 0) < MAX_RETRIES"
  "0 \<le> MAX_RETRIES" "Suc 0 \<le> MAX_RETRIES" "Suc (Suc 0) \<le> MAX_RETRIES"
  "Suc (Suc (Suc 0)) \<le> MAX_RETRIES" "MAX_RETRIES = Suc (Suc (Suc 0))"
  by (simp_all add: MAX_RETRIES_def)

text \<open>
  C6. The wrapper calls the wrapped function at most \<open>MAX_RETRIES + 1 = 4\<close> times. For a
  provider's fetch function (which throws or returns an object) it sleeps 1000, 2000 and
  4000 ms after the first, second and third failed attempt and not after the fourth; it
  throws only when all four attempts have failed, and then the last error; the first
  attempt that returns a truthy result ends the loop with that result.
\<close>

theorem fetchWithRetry_backoff:
  fixes provider :: "nat \<Rightarrow> jsError + 'a" and anyFn :: "nat \<Rightarrow> 'a outcome"
  shows
    "invocations (snd (fetchWithRetry anyFn apiName)) \<le> MAX_RETRIES + 1
     \<and> MAX_RETRIES + 1 = 4
     \<and> (provider 0 = Inr r \<longrightarrow>
          fetchWithRetry (\<lambda>k. adapterCall (provider k)) apiName = (Inr r, [Invoke apiName]))
     \<and> (provider 0 = Inl e0 \<and> provider 1 = Inr r \<longrightarrow>
          fetchWithRetry (\<lambda>k. adapterCall (provider k)) apiName
            = (Inr r, [Invoke apiName, Sleep 1000, Invoke apiName]))
     \<and> (provider 0 = Inl e0 \<and> provider 1 = Inl e1 \<and> provider 2 = Inr r \<longrightarrow>
          fetchWithRetry (\<lambda>k. adapterCall (provider k)) apiName
            = (Inr r, [Invoke apiName, Sleep 1000, Invoke apiName, Sleep 2000, Invoke apiName]))
     \<and> (provider 0 = Inl e0 \<and> provider 1 = Inl e1 \<and> provider 2 = Inl e2 \<and> provider 3 = Inr r \<longrightarrow>
          fetchWithRetry (\<lambda>k. adapterCall (provider k)) apiName
            = (Inr r, [Invoke apiName, Sleep 1000, Invoke apiName, Sleep 2000, Invoke apiName,
                       Sleep 4000, Invoke apiName]))
     \<and> (provider 0 = Inl e0 \<and> provider 1 = Inl e1 \<and> provider 2 = Inl e2 \<and> provider 3 = Inl e3 \<longrightarrow>
          fetchWithRetry (\<lambda>k. adapterCall (provider k)) apiName
            = (Inl (Some e3), [Invoke apiName, Sleep 1000, Invoke apiName, Sleep 2000, Invoke apiName,
                               Sleep 4000, Invoke apiName]))
     \<and> (\<forall>err. fst (fetchWithRetry anyFn apiName) = Inl err \<longrightarrow>
          invocations (snd (fetchWithRetry anyFn apiName)) = MAX_RETRIES + 1
          \<and> (\<forall>k \<le> MAX_RETRIES. \<forall>x. anyFn k \<noteq> Truthy x))
     \<and> (\<forall>k x. k \<le> MAX_RETRIES \<and> anyFn k = Truthy x \<and> (\<forall>j < k. \<forall>y. anyFn j \<noteq> Truthy y) \<longrightarrow>
          fst (fetchWithRetry anyFn apiName) = Inr x
          \<and> invocations (snd (fetchWithRetry anyFn apiName)) = k + 1)"
proof -
  let ?f = "\<lambda>k. adapterCall (provider k)"
  have bound: "invocations (snd (fetchWithRetry anyFn apiName)) \<le> MAX_RETRIES + 1"
    using retryFrom_invocations [of anyFn apiName 0 None] by (simp add: fetchWithRetry_def)
  have c0: "fetchWithRetry ?f apiName = (Inr r, [Invoke apiName])" if "provider 0 = Inr r"
    using that by (simp add: fetchWithRetry_def retryFrom_Truthy)
  have c1: "fetchWithRetry ?f apiName = (Inr r, [Invoke apiName, Sleep 1000, Invoke apiName])"
    if "provider 0 = Inl e0" "provider 1 = Inr r"
    using that
    by (simp add: fetchWithRetry_def retryFrom_Throws retryFrom_Truthy MAX_RETRIES_bounds(1-7)
        RETRY_DELAYS_nth)
  have c2: "fetchWithRetry ?f apiName
      = (Inr r, [Invoke apiName, Sleep 1000, Invoke apiName, Sleep 2000, Invoke apiName])"
    if "provider 0 = Inl e0" "provider 1 = Inl e1" "provider (Suc (Suc 0)) = Inr r"
    using that
    by (simp add: fetchWithRetry_def retryFrom_Throws retryFrom_Truthy MAX_RETRIES_bounds(1-7)
        RETRY_DELAYS_nth)
  have c3: "fetchWithRetry ?f apiName
      = (Inr r, [Invoke apiName, Sleep 1000, Invoke apiName, Sleep 2000, Invoke apiName,
                 Sleep 4000, Invoke apiName])"
    if "provider 0 = Inl e0" "provider 1 = Inl e1" "provider (Suc (Suc 0)) = Inl e2"
      "provider (Suc (Suc (Suc 0))) = Inr r"
    using that
    by (simp add: fetchWithRetry_def retryFrom_Throws retryFrom_Truthy MAX_RETRIES_bounds(1-7)
        RETRY_DELAYS_nth)
  have last: "retryFrom ?f apiName (Suc (Suc (Suc 0))) le' = (Inl (Some e3), [Invoke apiName])"
    if "provider (Suc (Suc (Suc 0))) = Inl e3" for le'
    using that retryFrom_Throws_last [where fetchFn = ?f and e = e3 and apiName = apiName and lastError = le'] by (simp add: MAX_RETRIES_bounds(8))
  have c4: "fetchWithRetry ?f apiName
      = (Inl (Some e3), [Invoke apiName, Sleep 1000, Invoke apiName, Sleep 2000, Invoke apiName,
                         Sleep 4000, Invoke apiName])"
    if "provider 0 = Inl e0" "provider 1 = Inl e1" "provider (Suc (Suc 0)) = Inl e2"
      "provider (Suc (Suc (Suc 0))) = Inl e3"
    using that last
    by (simp add: fetchWithRetry_def retryFrom_Throws MAX_RETRIES_bounds(1-7) RETRY_DELAYS_nth)
  have fails: "\<forall>k \<le> MAX_RETRIES. \<forall>x. anyFn k \<noteq> Truthy x"
    if "fst (fetchWithRetry anyFn apiName) = Inl err" for err
    using that retryFrom_fails [where fetchFn = anyFn and attempt = 0 and apiName = apiName and lastError = None and err = err] by (simp add: fetchWithRetry_def)
  have all_calls: "invocations (snd (fetchWithRetry anyFn apiName)) = MAX_RETRIES + 1"
    if "fst (fetchWithRetry anyFn apiName) = Inl err" for err
    using retryFrom_all_attempts [where fetchFn = anyFn and attempt = 0 and apiName = apiName and lastError = None] fails [OF that]
    by (simp add: fetchWithRetry_def)
  have first: "fst (fetchWithRetry anyFn apiName) = Inr x
        \<and> invocations (snd (fetchWithRetry anyFn apiName)) = k + 1"
    if "k \<le> MAX_RETRIES" "anyFn k = Truthy x" "\<forall>j < k. \<forall>y. anyFn j \<noteq> Truthy y" for k x
    using retryFrom_first_truthy [where fetchFn = anyFn and attempt = 0 and k = k and r = x and apiName = apiName and lastError = None] that
    by (simp add: fetchWithRetry_def)
  have four: "MAX_RETRIES + 1 = 4" by (simp add: MAX_RETRIES_def)
  show ?thesis
    using bound four c0 c1 c2 c3 c4 fails all_calls first
    by (simp add: numeral_2_eq_2 numeral_3_eq_3) blast
qed


theorem fetchWithRetry_backoff_witness:
  "fetchWithRetry (\<lambda>k. adapterCall (if k < 2 then Inl (Error ''HTTP 500'') else Inr (7::nat)))
       ''Binance''
     = (Inr 7, [Invoke ''Binance'', Sleep 1000, Invoke ''Binance'', Sleep 2000, Invoke ''Binance''])
   \<and> fetchWithRetry (\<lambda>k. adapterCall (Inl TimeoutError :: jsError + nat)) ''Kraken''
     = (Inl (Some TimeoutError),
        [Invoke ''Kraken'', Sleep 1000, Invoke ''Kraken'', Sleep 2000, Invoke ''Kraken'',
         Sleep 4000, Invoke ''Kraken''])"
proof
  let ?p = "\<lambda>k::nat. if k < 2 then Inl (Error ''HTTP 500'') else Inr (7::nat)"
  have "?p 0 = Inl (Error ''HTTP 500'') \<and> ?p 1 = Inl (Error ''HTTP 500'') \<and> ?p 2 = Inr 7"
    by simp
  then show "fetchWithRetry (\<lambda>k. adapterCall (?p k)) ''Binance''
     = (Inr 7, [Invoke ''Binance'', Sleep 1000, Invoke ''Binance'', Sleep 2000, Invoke ''Binance''])"
    by (rule fetchWithRetry_backoff [where provider = ?p, THEN conjunct2, THEN conjunct2,
          THEN conjunct2, THEN conjunct2, THEN conjunct1, THEN mp])
next
  let ?q = "\<lambda>k::nat. Inl TimeoutError :: jsError + nat"
  have "?q 0 = Inl TimeoutError \<and> ?q 1 = Inl TimeoutError \<and> ?q 2 = Inl TimeoutError
      \<and> ?q 3 = Inl TimeoutError"
    by simp
  then show "fetchWithRetry (\<lambda>k. adapterCall (?q k)) ''Kraken''
     = (Inl (Some TimeoutError),
        [Invoke ''Kraken'', Sleep 1000, Invoke ''Kraken'', Sleep 2000, Invoke ''Kraken'',
         Sleep 4000, Invoke ''Kraken''])"
    by (rule fetchWithRetry_backoff [where provider = ?q, THEN conjunct2, THEN conjunct2,
          THEN conjunct2, THEN conjunct2, THEN conjunct2, THEN conjunct2, THEN conjunct1, THEN mp])
qed

section \<open>Properties of the cache store\<close>

lemma loadFromCache_storage: "snd (loadFromCache now st) = st"
  by (simp add: loadFromCache_def split: sum.splits option.splits)

lemma loadFromCache_returns: "\<exists>r. fst (loadFromCache now st) = Inr r"
  by (simp add: loadFromCache_def split: sum.splits option.splits)

lemma saveToCache_returns: "fst (saveToCache now pd cp st) = Inr ()"
  by (simp add: saveToCache_def split: sum.splits)

text \<open>
  C4. With a snapshot stored under the cache key, \<open>loadFromCache\<close> returns it unchanged
  when \<open>now - timestamp\<close> is below the time-to-live of 60000 ms and \<^verbatim>\<open>null\<close> otherwise;
  it never changes the storage, so a stale record stays. When reading the storage throws,
  or nothing parsable is stored, it returns \<^verbatim>\<open>null\<close>; when writing throws, \<open>saveToCache\<close>
  returns normally and leaves the storage as it was; otherwise it overwrites the record
  with the new snapshot and the current time. Neither function lets an exception reach
  its caller.
\<close>

theorem cache_contract:
  "CACHE_TTL = 60000
   \<and> (\<not> getItemThrows st \<and> items st CACHE_KEY = Some (Stored data timestamp) \<longrightarrow>
        loadFromCache now st
          = (if now - timestamp < CACHE_TTL then Inr (Some data) else Inr None, st))
   \<and> (\<not> getItemThrows st \<and> items st CACHE_KEY \<in> {None, Some EmptyText, Some Unparsable} \<longrightarrow>
        loadFromCache now st = (Inr None, st))
   \<and> (getItemThrows st \<longrightarrow> loadFromCache now st = (Inr None, st))
   \<and> (\<exists>r. fst (loadFromCache now st) = Inr r)
   \<and> snd (loadFromCache now st) = st
   \<and> fst (saveToCache now pd cp st) = Inr ()
   \<and> (setItemThrows st \<longrightarrow> saveToCache now pd cp st = (Inr (), st))
   \<and> (\<not> setItemThrows st \<longrightarrow>
        saveToCache now pd cp st
          = (Inr (), st\<lparr>items := (items st)(CACHE_KEY \<mapsto> Stored (pd, cp) now)\<rparr>))"
proof -
  have ttl: "CACHE_TTL = 60000" by (simp add: CACHE_TTL_def)
  have fresh: "loadFromCache now st
      = (if now - timestamp < CACHE_TTL then Inr (Some data) else Inr None, st)"
    if "\<not> getItemThrows st" "items st CACHE_KEY = Some (Stored data timestamp)"
    using that by (simp add: loadFromCache_def loadAttempt_def getItem_def JSON_parse_def)
  have absent: "loadFromCache now st = (Inr None, st)"
    if "\<not> getItemThrows st" "items st CACHE_KEY \<in> {None, Some EmptyText, Some Unparsable}"
    using that by (auto simp add: loadFromCache_def loadAttempt_def getItem_def JSON_parse_def)
  have readfail: "loadFromCache now st = (Inr None, st)" if "getItemThrows st"
    using that by (simp add: loadFromCache_def loadAttempt_def getItem_def)
  have writefail: "saveToCache now pd cp st = (Inr (), st)" if "setItemThrows st"
    using that by (simp add: saveToCache_def setItem_def)
  have writeok: "saveToCache now pd cp st
      = (Inr (), st\<lparr>items := (items st)(CACHE_KEY \<mapsto> Stored (pd, cp) now)\<rparr>)"
    if "\<not> setItemThrows st"
    using that by (simp add: saveToCache_def setItem_def)
  show ?thesis
    using ttl fresh absent readfail writefail writeok
      loadFromCache_storage [of now st] loadFromCache_returns [of now st]
      saveToCache_returns [of now pd cp st]
    by blast
qed

theorem cache_contract_witness:
  "loadFromCache 60999 exampleStorage = (Inr (Some exampleSnapshot), exampleStorage)
   \<and> loadFromCache 61000 exampleStorage = (Inr None, exampleStorage)
   \<and> loadFromCache 2000 (exampleStorage\<lparr>getItemThrows := True\<rparr>)
       = (Inr None, exampleStorage\<lparr>getItemThrows := True\<rparr>)
   \<and> saveToCache 2000 (fst exampleSnapshot) (snd exampleSnapshot)
         (exampleStorage\<lparr>setItemThrows := True\<rparr>)
       = (Inr (), exampleStorage\<lparr>setItemThrows := True\<rparr>)"
proof -
  have h: "\<not> getItemThrows exampleStorage
      \<and> items exampleStorage CACHE_KEY = Some (Stored exampleSnapshot 1000)"
    by (simp add: exampleStorage_def)
  have a: "loadFromCache 60999 exampleStorage = (Inr (Some exampleSnapshot), exampleStorage)"
    using cache_contract [where st = exampleStorage and now = 60999 and data = exampleSnapshot
        and timestamp = 1000, THEN conjunct2, THEN conjunct1, THEN mp, OF h]
    by (simp add: CACHE_TTL_def)
  have b: "loadFromCache 61000 exampleStorage = (Inr None, exampleStorage)"
    using cache_contract [where st = exampleStorage and now = 61000 and data = exampleSnapshot
        and timestamp = 1000, THEN conjunct2, THEN conjunct1, THEN mp, OF h]
    by (simp add: CACHE_TTL_def)
  have c: "loadFromCache 2000 (exampleStorage\<lparr>getItemThrows := True\<rparr>)
       = (Inr None, exampleStorage\<lparr>getItemThrows := True\<rparr>)"
    using cache_contract [where st = "exampleStorage\<lparr>getItemThrows := True\<rparr>" and now = 2000,
        THEN conjunct2, THEN conjunct2, THEN conjunct2, THEN conjunct1]
    by simp
  have d: "saveToCache 2000 (fst exampleSnapshot) (snd exampleSnapshot)
         (exampleStorage\<lparr>setItemThrows := True\<rparr>)
       = (Inr (), exampleStorage\<lparr>setItemThrows := True\<rparr>)"
    using cache_contract [where st = "exampleStorage\<lparr>setItemThrows := True\<rparr>" and now = 2000
        and pd = "fst exampleSnapshot" and cp = "snd exampleSnapshot",
        THEN conjunct2, THEN conjunct2, THEN conjunct2, THEN conjunct2, THEN conjunct2,
        THEN conjunct2, THEN conjunct2, THEN conjunct1]
    by simp
  from a b c d show ?thesis by blast
qed

section \<open>Properties of the proxy race\<close>

lemma relayTask_fulfilled:
  "relayTask timeout (latency, resp) = (t, Inr b)
    \<longleftrightarrow> latency < timeout \<and> t = latency \<and> resp = Response True (Some b)"
  by (auto simp add: relayTask_def split: response.splits option.splits)

lemma fulfilledOf_set: "(t, b) \<in> set (fulfilledOf ps) \<longleftrightarrow> (t, Inr b) \<in> set ps"
  by (induction ps rule: fulfilledOf.induct) auto

lemma fulfilledOf_empty: "fulfilledOf ps = [] \<longleftrightarrow> (\<forall>p \<in> set ps. \<exists>e. snd p = Inl e)"
  by (induction ps rule: fulfilledOf.induct) auto

lemma firstOf_mem: "firstOf best cs \<in> set (best # cs)"
  by (induction cs arbitrary: best) auto

lemma Promise_any_rejects:
  "(\<exists>e. Promise_any ps = Inl e) \<longleftrightarrow> (\<forall>p \<in> set ps. \<exists>e. snd p = Inl e)"
  by (simp add: Promise_any_def fulfilledOf_empty [symmetric] split: list.splits)

lemma Promise_any_fulfils:
  assumes "Promise_any ps = Inr b"
  shows "\<exists>t. (t, Inr b) \<in> set ps"
proof -
  from assms obtain c cs where f: "fulfilledOf ps = c # cs" and b: "b = snd (firstOf c cs)"
    by (auto simp add: Promise_any_def split: list.splits)
  have "firstOf c cs \<in> set (fulfilledOf ps)"
    using firstOf_mem [of c cs] f by simp
  then have "(fst (firstOf c cs), b) \<in> set (fulfilledOf ps)"
    using b by simp
  then show ?thesis
    by (auto simp add: fulfilledOf_set)
qed

text \<open>Three promises: the one that fulfils first decides, whatever the others do.\<close>

lemma Promise_any_three:
  assumes "i < 3" "[p0, p1, p2] ! i = (t, Inr b)"
    and "\<forall>j < 3. j \<noteq> i \<longrightarrow>
      (case [p0, p1, p2] ! j of (t', Inl e) \<Rightarrow> True | (t', Inr b') \<Rightarrow> t < t' \<or> (t = t' \<and> i < j))"
  shows "Promise_any [p0, p1, p2] = Inr b"
proof -
  from assms(1) consider "i = 0" | "i = 1" | "i = 2" by linarith
  then show ?thesis
  proof cases
    case 1
    with assms(2) have p0: "p0 = (t, Inr b)" by simp
    from assms(3) [rule_format, of 1] assms(3) [rule_format, of 2] 1
    have "case p1 of (t', Inl e) \<Rightarrow> True | (t', Inr b') \<Rightarrow> t \<le> t'"
      "case p2 of (t', Inl e) \<Rightarrow> True | (t', Inr b') \<Rightarrow> t \<le> t'"
      by (auto split: prod.splits sum.splits)
    with p0 show ?thesis
      by (cases p1; cases p2) (auto simp add: Promise_any_def split: sum.splits)
  next
    case 2
    with assms(2) have p1: "p1 = (t, Inr b)" by simp
    from assms(3) [rule_format, of 0] assms(3) [rule_format, of 2] 2
    have "case p0 of (t', Inl e) \<Rightarrow> True | (t', Inr b') \<Rightarrow> t < t'"
      "case p2 of (t', Inl e) \<Rightarrow> True | (t', Inr b') \<Rightarrow> t \<le> t'"
      by (auto split: prod.splits sum.splits)
    with p1 show ?thesis
      by (cases p0; cases p2) (auto simp add: Promise_any_def split: sum.splits)
  next
    case 3
    with assms(2) have p2: "p2 = (t, Inr b)" by simp
    from assms(3) [rule_format, of 0] assms(3) [rule_format, of 1] 3
    have "case p0 of (t', Inl e) \<Rightarrow> True | (t', Inr b') \<Rightarrow> t < t'"
      "case p1 of (t', Inl e) \<Rightarrow> True | (t', Inr b') \<Rightarrow> t < t'"
      by (auto split: prod.splits sum.splits)
    with p2 show ?thesis
      by (cases p0; cases p1) (auto simp add: Promise_any_def split: sum.splits)
  qed
qed

lemma CORS_PROXIES_three:
  "\<exists>a b c. CORS_PROXIES = [a, b, c]"
  by (simp add: CORS_PROXIES_def)

text \<open>
  C7. Three relays are raced. Whenever one of them responds successfully within the
  timeout (an \<^verbatim>\<open>ok\<close> response with a JSON body, read before the timeout expires), the
  fetcher returns the body of such a relay; it rejects if and only if every relay fails
  or times out; and the relay that succeeds first decides the result, whatever the other
  relays do, be it failing at any time or succeeding later with any body.
\<close>

theorem fetchWithProxyRace_first_success:
  fixes net :: "'b network"
  shows
  "(let task = (\<lambda>proxy. relayTask timeout (net (proxyUrl enc url proxy)));
        result = fetchWithProxyRace enc net url timeout
    in length CORS_PROXIES = 3
     \<and> ((\<exists>proxy \<in> set CORS_PROXIES. \<exists>t b. task proxy = (t, Inr b)) \<longrightarrow>
          (\<exists>proxy \<in> set CORS_PROXIES. \<exists>t b. task proxy = (t, Inr b) \<and> result = Inr b))
     \<and> ((\<exists>e. result = Inl e) \<longleftrightarrow>
          (\<forall>proxy \<in> set CORS_PROXIES. \<exists>t e. task proxy = (t, Inl e)))
     \<and> (\<forall>i < length CORS_PROXIES. \<forall>t b.
          task (CORS_PROXIES ! i) = (t, Inr b)
          \<and> (\<forall>j < length CORS_PROXIES. j \<noteq> i \<longrightarrow>
                (case task (CORS_PROXIES ! j) of
                   (t', Inl e) \<Rightarrow> True
                 | (t', Inr b') \<Rightarrow> t < t' \<or> (t = t' \<and> i < j)))
          \<longrightarrow> result = Inr b)
     \<and> (\<forall>latency resp t b.
          relayTask timeout (latency, resp) = (t, Inr (b::'b))
            \<longleftrightarrow> latency < timeout \<and> t = latency \<and> resp = Response True (Some b)))"
proof -
  define task where "task = (\<lambda>proxy. relayTask timeout (net (proxyUrl enc url proxy)))"
  define result where "result = fetchWithProxyRace enc net url timeout"
  have res: "result = Promise_any (map task CORS_PROXIES)"
    by (simp add: result_def task_def fetchWithProxyRace_def)
  have len: "length CORS_PROXIES = 3"
    by (simp add: CORS_PROXIES_def)
  have rej: "(\<exists>e. result = Inl e) \<longleftrightarrow> (\<forall>proxy \<in> set CORS_PROXIES. \<exists>t e. task proxy = (t, Inl e))"
  proof -
    have "(\<exists>e. result = Inl e) \<longleftrightarrow> (\<forall>p \<in> set (map task CORS_PROXIES). \<exists>e. snd p = Inl e)"
      unfolding res by (rule Promise_any_rejects)
    also have "\<dots> \<longleftrightarrow> (\<forall>proxy \<in> set CORS_PROXIES. \<exists>t e. task proxy = (t, Inl e))"
      by (auto simp add: prod_eq_iff)
    finally show ?thesis .
  qed
  have succ: "\<exists>proxy \<in> set CORS_PROXIES. \<exists>t b. task proxy = (t, Inr b) \<and> result = Inr b"
    if "\<exists>proxy \<in> set CORS_PROXIES. \<exists>t b. task proxy = (t, Inr b)"
  proof -
    from that rej have "\<not> (\<exists>e. result = Inl e)" by force
    then obtain b where b: "result = Inr b" by (cases result) auto
    with res Promise_any_fulfils [of "map task CORS_PROXIES" b]
    obtain t where "(t, Inr b) \<in> task ` set CORS_PROXIES" by auto
    then obtain proxy where "proxy \<in> set CORS_PROXIES" "task proxy = (t, Inr b)"
      by (auto simp add: image_iff)
    with b show ?thesis by blast
  qed
  have win: "result = Inr b"
    if "i < length CORS_PROXIES" "task (CORS_PROXIES ! i) = (t, Inr b)"
      "\<forall>j < length CORS_PROXIES. j \<noteq> i \<longrightarrow>
         (case task (CORS_PROXIES ! j) of
            (t', Inl e) \<Rightarrow> True
          | (t', Inr b') \<Rightarrow> t < t' \<or> (t = t' \<and> i < j))"
    for i t b
  proof -
    obtain p q r where pqr: "CORS_PROXIES = [p, q, r]"
      using CORS_PROXIES_three by blast
    have m: "map task CORS_PROXIES = [task p, task q, task r]"
      by (simp add: pqr)
    have nth: "[task p, task q, task r] ! j = task (CORS_PROXIES ! j)" if "j < 3" for j
      using that nth_map [of j CORS_PROXIES task] by (simp add: m [symmetric] len)
    have "Promise_any [task p, task q, task r] = Inr b"
    proof (rule Promise_any_three [of i])
      show "i < 3" using that(1) len by simp
      then show "[task p, task q, task r] ! i = (t, Inr b)"
        using nth that(2) by simp
      show "\<forall>j<3. j \<noteq> i \<longrightarrow>
        (case [task p, task q, task r] ! j of
           (t', Inl e) \<Rightarrow> True
         | (t', Inr b') \<Rightarrow> t < t' \<or> (t = t' \<and> i < j))"
        using that(3) nth len by simp
    qed
    then show ?thesis by (simp add: res m)
  qed
  have rt: "\<forall>latency resp t b.
      relayTask timeout (latency, resp) = (t, Inr (b::'b))
        \<longleftrightarrow> latency < timeout \<and> t = latency \<and> resp = Response True (Some b)"
    by (simp add: relayTask_fulfilled)
  have s: "(\<exists>proxy \<in> set CORS_PROXIES. \<exists>t b. task proxy = (t, Inr b)) \<longrightarrow>
      (\<exists>proxy \<in> set CORS_PROXIES. \<exists>t b. task proxy = (t, Inr b) \<and> result = Inr b)"
    by (rule impI) (rule succ)
  have w: "\<forall>i < length CORS_PROXIES. \<forall>t b.
      task (CORS_PROXIES ! i) = (t, Inr b)
      \<and> (\<forall>j < length CORS_PROXIES. j \<noteq> i \<longrightarrow>
            (case task (CORS_PROXIES ! j) of
               (t', Inl e) \<Rightarrow> True
             | (t', Inr b') \<Rightarrow> t < t' \<or> (t = t' \<and> i < j)))
      \<longrightarrow> result = Inr b"
  proof (intro allI impI)
    fix i t b
    assume i: "i < length CORS_PROXIES"
      and h: "task (CORS_PROXIES ! i) = (t, Inr b)
        \<and> (\<forall>j < length CORS_PROXIES. j \<noteq> i \<longrightarrow>
            (case task (CORS_PROXIES ! j) of
               (t', Inl e) \<Rightarrow> True
             | (t', Inr b') \<Rightarrow> t < t' \<or> (t = t' \<and> i < j)))"
    show "result = Inr b"
      by (rule win [OF i conjunct1 [OF h] conjunct2 [OF h]])
  qed
  from len s rej w rt show ?thesis
    unfolding Let_def task_def result_def by (intro conjI)
qed

theorem fetchWithProxyRace_first_success_witness:
  "fetchWithProxyRace id exampleRelays ''target'' 5000 = Inr 42"
proof -
  let ?task = "\<lambda>proxy. relayTask 5000 (exampleRelays (proxyUrl id ''target'' proxy))"
  have i: "1 < length CORS_PROXIES"
    by (simp add: CORS_PROXIES_def)
  have t0: "?task (CORS_PROXIES ! 0) = (20, Inl TypeError)"
    and t1: "?task (CORS_PROXIES ! 1) = (300, Inr 42)"
    and t2: "?task (CORS_PROXIES ! 2) = (500, Inr 43)"
    by (simp_all add: CORS_PROXIES_def proxyUrl_def exampleRelays_def relayTask_def)
  have others: "\<forall>j < length CORS_PROXIES. j \<noteq> 1 \<longrightarrow>
      (case ?task (CORS_PROXIES ! j) of
         (t', Inl e) \<Rightarrow> True
       | (t', Inr b') \<Rightarrow> (300::nat) < t' \<or> (300 = t' \<and> 1 < j))"
  proof (intro allI impI)
    fix j assume "j < length CORS_PROXIES" "j \<noteq> 1"
    then have "j = 0 \<or> j = 2" by (auto simp add: CORS_PROXIES_def)
    then show "case ?task (CORS_PROXIES ! j) of
         (t', Inl e) \<Rightarrow> True
       | (t', Inr b') \<Rightarrow> (300::nat) < t' \<or> (300 = t' \<and> 1 < j)"
      using t0 t2 by auto
  qed
  show ?thesis
    by (rule fetchWithProxyRace_first_success [where net = exampleRelays and enc = id
          and url = "''target''" and timeout = 5000, unfolded Let_def,
          THEN conjunct2, THEN conjunct2, THEN conjunct2, THEN conjunct1,
          rule_format, OF i conjI [OF t1 others]])
qed

section \<open>Properties of the resolver\<close>

lemma retryFrom_events:
  "ev \<in> set (snd (retryFrom fetchFn apiName attempt lastError))
    \<Longrightarrow> ev = Invoke apiName \<or> (\<exists>d. ev = Sleep d)"
proof (induction fetchFn apiName attempt lastError rule: retryFrom.induct)
  case (1 fetchFn apiName attempt lastError)
  show ?case
  proof (cases "attempt \<le> MAX_RETRIES")
    case False
    with "1.prems" show ?thesis by (simp add: retryFrom_past_end)
  next
    case le: True
    show ?thesis
    proof (cases "fetchFn attempt")
      case (Truthy r)
      with le "1.prems" show ?thesis by (simp add: retryFrom_Truthy)
    next
      case Falsy
      with le "1.prems" "1.IH"(3) [OF le Falsy] show ?thesis
        by (auto simp add: retryFrom_Falsy)
    next
      case (Throws e)
      show ?thesis
      proof (cases "attempt < MAX_RETRIES")
        case True
        with Throws "1.prems" "1.IH"(1) [OF le Throws True] show ?thesis
          by (auto simp add: retryFrom_Throws)
      next
        case False
        with le have "attempt = MAX_RETRIES" by simp
        with Throws "1.prems" show ?thesis by (simp add: retryFrom_Throws_last)
      qed
    qed
  qed
qed

lemma tryProvider_yields:
  "fst (fetchWithRetry (\<lambda>k. adapterCall (fetchFn k)) apiName) = Inr r
    \<Longrightarrow> CurrentPrice.price r \<noteq> 0
    \<Longrightarrow> tryProvider fetchFn apiName rest
      = (Some r, snd (fetchWithRetry (\<lambda>k. adapterCall (fetchFn k)) apiName))"
  by (cases "fetchWithRetry (\<lambda>k. adapterCall (fetchFn k)) apiName")
    (auto simp add: tryProvider_def split: sum.splits)

lemma tryProvider_fails:
  "\<forall>r. fst (fetchWithRetry (\<lambda>k. adapterCall (fetchFn k)) apiName) = Inr r
        \<longrightarrow> CurrentPrice.price r = 0
    \<Longrightarrow> tryProvider fetchFn apiName rest
      = emit (snd (fetchWithRetry (\<lambda>k. adapterCall (fetchFn k)) apiName)) rest"
  by (cases "fetchWithRetry (\<lambda>k. adapterCall (fetchFn k)) apiName")
    (auto simp add: tryProvider_def split: sum.splits)

lemma emit_pair: "emit evs rest = (fst rest, evs @ snd rest)"
  by (cases rest) simp

lemma tryCoinGecko_trace: "snd (tryCoinGecko enc net coin) = [Race (priceUrl coin)]"
  by (simp add: tryCoinGecko_def split: sum.splits option.splits prod.splits)

lemma tryCoinGecko_None:
  "fst (tryCoinGecko enc net coin) = None
    \<longleftrightarrow> (\<forall>data. fetchWithProxyRace enc net (priceUrl coin) REQUEST_TIMEOUT = Inr data
          \<longrightarrow> data coin = None)"
  by (auto simp add: tryCoinGecko_def split: sum.splits option.splits prod.splits)

text \<open>
  C5, as the code has it. The resolver asks CoinCap, Binance, Kraken and CryptoCompare in
  this order, each through the retry wrapper, and CoinGecko last through the proxy race.
  It returns the result of the first provider whose wrapper returns an object with a
  truthy \<^verbatim>\<open>price\<close> (a number other than 0); the events up to that point are those of this
  provider and the ones before it, so no later provider is called. A provider whose
  wrapper throws or whose price is 0 is passed over. When the four direct providers are
  passed over, the result is CoinGecko's: an object when the race yields a body with an
  entry for the coin, and \<^verbatim>\<open>null\<close> otherwise. Every throw is caught inside the resolver.
\<close>

theorem fetchCurrentPrice_chain:
  "(let cc = fetchWithRetry (\<lambda>k. adapterCall (fetchFromCoinCap P k)) ''CoinCap'';
        bn = fetchWithRetry (\<lambda>k. adapterCall (fetchFromBinance P k)) ''Binance'';
        kr = fetchWithRetry (\<lambda>k. adapterCall (fetchFromKraken P k)) ''Kraken'';
        cr = fetchWithRetry (\<lambda>k. adapterCall (fetchFromCryptoCompare P k)) ''CryptoCompare'';
        cg = tryCoinGecko enc net coin;
        fails = (\<lambda>w. \<forall>r. fst w = Inr r \<longrightarrow> CurrentPrice.price r = 0);
        res = fetchCurrentPrice P enc net coin
    in (\<forall>r. fst cc = Inr r \<and> CurrentPrice.price r \<noteq> 0 \<longrightarrow> res = (Some r, snd cc))
     \<and> (\<forall>r. fails cc \<and> fst bn = Inr r \<and> CurrentPrice.price r \<noteq> 0 \<longrightarrow>
           res = (Some r, snd cc @ snd bn))
     \<and> (\<forall>r. fails cc \<and> fails bn \<and> fst kr = Inr r \<and> CurrentPrice.price r \<noteq> 0 \<longrightarrow>
           res = (Some r, snd cc @ snd bn @ snd kr))
     \<and> (\<forall>r. fails cc \<and> fails bn \<and> fails kr \<and> fst cr = Inr r \<and> CurrentPrice.price r \<noteq> 0 \<longrightarrow>
           res = (Some r, snd cc @ snd bn @ snd kr @ snd cr))
     \<and> (fails cc \<and> fails bn \<and> fails kr \<and> fails cr \<longrightarrow>
           res = (fst cg, snd cc @ snd bn @ snd kr @ snd cr @ [Race (priceUrl coin)]))
     \<and> (fst cg = None \<longleftrightarrow>
           (\<forall>data. fetchWithProxyRace enc net (priceUrl coin) REQUEST_TIMEOUT = Inr data
              \<longrightarrow> data coin = None))
     \<and> (\<forall>ev \<in> set (snd cc). ev = Invoke ''CoinCap'' \<or> (\<exists>d. ev = Sleep d))
     \<and> (\<forall>ev \<in> set (snd bn). ev = Invoke ''Binance'' \<or> (\<exists>d. ev = Sleep d))
     \<and> (\<forall>ev \<in> set (snd kr). ev = Invoke ''Kraken'' \<or> (\<exists>d. ev = Sleep d))
     \<and> (\<forall>ev \<in> set (snd cr). ev = Invoke ''CryptoCompare'' \<or> (\<exists>d. ev = Sleep d)))"
proof -
  define cc where "cc = fetchWithRetry (\<lambda>k. adapterCall (fetchFromCoinCap P k)) ''CoinCap''"
  define bn where "bn = fetchWithRetry (\<lambda>k. adapterCall (fetchFromBinance P k)) ''Binance''"
  define kr where "kr = fetchWithRetry (\<lambda>k. adapterCall (fetchFromKraken P k)) ''Kraken''"
  define cr where
    "cr = fetchWithRetry (\<lambda>k. adapterCall (fetchFromCryptoCompare P k)) ''CryptoCompare''"
  define cg where "cg = tryCoinGecko enc net coin"
  define fails :: "(jsError option + CurrentPrice) \<times> event list \<Rightarrow> bool"
    where "fails = (\<lambda>w. \<forall>r. fst w = Inr r \<longrightarrow> CurrentPrice.price r = 0)"
  define res where "res = fetchCurrentPrice P enc net coin"
  define t4 where "t4 = tryProvider (fetchFromCryptoCompare P) ''CryptoCompare'' cg"
  define t3 where "t3 = tryProvider (fetchFromKraken P) ''Kraken'' t4"
  define t2 where "t2 = tryProvider (fetchFromBinance P) ''Binance'' t3"
  have res: "res = tryProvider (fetchFromCoinCap P) ''CoinCap'' t2"
    by (simp add: res_def fetchCurrentPrice_def t2_def t3_def t4_def cg_def)
  have y1: "res = (Some r, snd cc)" if "fst cc = Inr r" "CurrentPrice.price r \<noteq> 0" for r
    using that unfolding res cc_def by (rule tryProvider_yields)
  have f1: "res = (fst t2, snd cc @ snd t2)" if "fails cc"
    using that unfolding res cc_def fails_def by (simp add: tryProvider_fails emit_pair)
  have y2: "t2 = (Some r, snd bn)" if "fst bn = Inr r" "CurrentPrice.price r \<noteq> 0" for r
    using that unfolding t2_def bn_def by (rule tryProvider_yields)
  have f2: "t2 = (fst t3, snd bn @ snd t3)" if "fails bn"
    using that unfolding t2_def bn_def fails_def by (simp add: tryProvider_fails emit_pair)
  have y3: "t3 = (Some r, snd kr)" if "fst kr = Inr r" "CurrentPrice.price r \<noteq> 0" for r
    using that unfolding t3_def kr_def by (rule tryProvider_yields)
  have f3: "t3 = (fst t4, snd kr @ snd t4)" if "fails kr"
    using that unfolding t3_def kr_def fails_def by (simp add: tryProvider_fails emit_pair)
  have y4: "t4 = (Some r, snd cr)" if "fst cr = Inr r" "CurrentPrice.price r \<noteq> 0" for r
    using that unfolding t4_def cr_def by (rule tryProvider_yields)
  have f4: "t4 = (fst cg, snd cr @ [Race (priceUrl coin)])" if "fails cr"
    using that unfolding t4_def cr_def fails_def
    by (simp add: tryProvider_fails emit_pair cg_def tryCoinGecko_trace)
  have c1: "\<forall>r. fst cc = Inr r \<and> CurrentPrice.price r \<noteq> 0 \<longrightarrow> res = (Some r, snd cc)"
    using y1 by simp
  have c2: "\<forall>r. fails cc \<and> fst bn = Inr r \<and> CurrentPrice.price r \<noteq> 0 \<longrightarrow>
      res = (Some r, snd cc @ snd bn)"
    using f1 y2 by simp
  have c3: "\<forall>r. fails cc \<and> fails bn \<and> fst kr = Inr r \<and> CurrentPrice.price r \<noteq> 0 \<longrightarrow>
      res = (Some r, snd cc @ snd bn @ snd kr)"
    using f1 f2 y3 by simp
  have c4: "\<forall>r. fails cc \<and> fails bn \<and> fails kr \<and> fst cr = Inr r \<and> CurrentPrice.price r \<noteq> 0
      \<longrightarrow> res = (Some r, snd cc @ snd bn @ snd kr @ snd cr)"
    using f1 f2 f3 y4 by simp
  have c5: "fails cc \<and> fails bn \<and> fails kr \<and> fails cr \<longrightarrow>
      res = (fst cg, snd cc @ snd bn @ snd kr @ snd cr @ [Race (priceUrl coin)])"
    using f1 f2 f3 f4 by simp
  have c6: "fst cg = None \<longleftrightarrow>
      (\<forall>data. fetchWithProxyRace enc net (priceUrl coin) REQUEST_TIMEOUT = Inr data
         \<longrightarrow> data coin = None)"
    unfolding cg_def by (rule tryCoinGecko_None)
  have e1: "\<forall>ev \<in> set (snd cc). ev = Invoke ''CoinCap'' \<or> (\<exists>d. ev = Sleep d)"
    unfolding cc_def fetchWithRetry_def using retryFrom_events by blast
  have e2: "\<forall>ev \<in> set (snd bn). ev = Invoke ''Binance'' \<or> (\<exists>d. ev = Sleep d)"
    unfolding bn_def fetchWithRetry_def using retryFrom_events by blast
  have e3: "\<forall>ev \<in> set (snd kr). ev = Invoke ''Kraken'' \<or> (\<exists>d. ev = Sleep d)"
    unfolding kr_def fetchWithRetry_def using retryFrom_events by blast
  have e4: "\<forall>ev \<in> set (snd cr). ev = Invoke ''CryptoCompare'' \<or> (\<exists>d. ev = Sleep d)"
    unfolding cr_def fetchWithRetry_def using retryFrom_events by blast
  from c1 c2 c3 c4 c5 c6 e1 e2 e3 e4 show ?thesis
    unfolding Let_def cc_def bn_def kr_def cr_def cg_def fails_def res_def
    by (intro conjI)
qed

text \<open>
  C5 as stated fails: CoinCap's result has the numeric, non-null price 0, yet the resolver
  goes on to call Binance and returns Binance's result.
\<close>

theorem fetchCurrentPrice_zero_price_counterexample:
  "fetchFromCoinCap zeroPriceProviders 0
     = Inr \<lparr>price = 0, change24h = Some 0, source = Some ''coincap''\<rparr>
   \<and> fetchCurrentPrice zeroPriceProviders id offline ''bitcoin''
     = (Some \<lparr>price = 50000, change24h = None, source = Some ''binance''\<rparr>,
        [Invoke ''CoinCap'', Invoke ''Binance''])"
  by (simp add: fetchCurrentPrice_def tryProvider_def fetchWithRetry_def retryFrom_Truthy
      zeroPriceProviders_def)

theorem fetchCurrentPrice_chain_witness:
  "fetchCurrentPrice coinCapDown id offline ''bitcoin''
     = (Some \<lparr>price = 50000, change24h = None, source = Some ''binance''\<rparr>,
        [Invoke ''CoinCap'', Sleep 1000, Invoke ''CoinCap'', Sleep 2000, Invoke ''CoinCap'',
         Sleep 4000, Invoke ''CoinCap'', Invoke ''Binance''])"
proof -
  let ?cc = "fetchWithRetry (\<lambda>k. adapterCall (fetchFromCoinCap coinCapDown k)) ''CoinCap''"
  let ?bn = "fetchWithRetry (\<lambda>k. adapterCall (fetchFromBinance coinCapDown k)) ''Binance''"
  let ?r = "\<lparr>price = 50000, change24h = None, source = Some ''binance''\<rparr>"
  have cc: "?cc = (Inl (Some (Error ''CoinCap API error: 503'')),
      [Invoke ''CoinCap'', Sleep 1000, Invoke ''CoinCap'', Sleep 2000, Invoke ''CoinCap'',
       Sleep 4000, Invoke ''CoinCap''])"
    by code_simp
  have bn: "?bn = (Inr ?r, [Invoke ''Binance''])"
    by code_simp
  have h: "(\<forall>r. fst ?cc = Inr r \<longrightarrow> CurrentPrice.price r = 0) \<and> fst ?bn = Inr ?r
      \<and> CurrentPrice.price ?r \<noteq> 0"
    by (simp add: cc bn)
  have "fetchCurrentPrice coinCapDown id offline ''bitcoin'' = (Some ?r, snd ?cc @ snd ?bn)"
    by (rule fetchCurrentPrice_chain [where P = coinCapDown and enc = id and net = offline
          and coin = "''bitcoin''", unfolded Let_def, THEN conjunct2, THEN conjunct1,
          rule_format, OF h])
  then show ?thesis
    by (simp add: cc bn)
qed

section \<open>Properties of month keys\<close>














section \<open>Properties of the monthly bucketing\<close>


lemma addSample_keys:
  "map fst (addSample D m t p)
    = (if monthKeyOf (D t) \<in> fst ` set m then map fst m else map fst m @ [monthKeyOf (D t)])"
proof -
  have keep: "map fst (map (\<lambda>(k, (s, c)). if k = K then (k, (s + p, c + 1)) else (k, (s, c))) xs)
      = map fst xs" for K and xs :: monthly
    by (induction xs) (auto split: prod.splits)
  show ?thesis
    by (simp add: addSample_def Let_def keep map_of_eq_None_iff del: map_map)
qed



lemma forEachSample_valid:
  "forEachSample D (map (\<lambda>(t, p). Sample t p) samples) m
    = Inr (foldl (\<lambda>m (t, p). addSample D m t p) m samples)"
  by (induction samples arbitrary: m) (auto split: prod.splits)

lemma buckets_keys:
  fixes D :: dateEnv and samples :: "(int \<times> rat) list"
  shows "distinct (map fst (foldl (\<lambda>m (t, p). addSample D m t p) [] samples))
    \<and> set (map fst (foldl (\<lambda>m (t, p). addSample D m t p) [] samples))
        = (\<lambda>(t, p). monthKeyOf (D t)) ` set samples"
proof (induction samples rule: rev_induct)
  case Nil
  show ?case by simp
next
  case (snoc x xs)
  obtain t p where x: "x = (t, p)" by (cases x)
  show ?case
    using snoc.IH by (auto simp add: addSample_keys x)
qed



lemma example_keys:
  "monthKeyOf (2024, 0) = ''2024-01''" "monthKeyOf (2024, Suc 0) = ''2024-02''"
  by code_simp+

lemma example_rounds: "jsRound 43200 = 43200" "jsRound 52000 = 52000"
  by code_simp+

lemma monthlyAverages_example:
  assumes "D t1 = (2024, 0)" "D t2 = (2024, 0)" "D t3 = (2024, 1)"
  shows "monthlyAverages D [Sample t1 43000, Sample t2 43400, Sample t3 52000]
    = Inr [\<lparr>month = ''2024-01'', price = 43200\<rparr>, \<lparr>month = ''2024-02'', price = 52000\<rparr>]"
  using assms
  by (simp add: monthlyAverages_def addSample_def Let_def toProcessed_def example_keys
      example_rounds)



section \<open>Properties of one aggregation cycle\<close>

text \<open>
  What the two fetches hand to a cycle. The historical fetch yields the \<^verbatim>\<open>prices\<close> of the
  raced body when there are some and \<^verbatim>\<open>null\<close> in every other case, so a series it yields is
  never empty.
\<close>

lemma fetchHistoricalData_result:
  "fetchHistoricalData enc net coin days = Some prices
    \<longleftrightarrow> fetchWithProxyRace enc net (apiUrl coin days) 8000 = Inr (Some prices) \<and> prices \<noteq> []"
  by (auto simp add: fetchHistoricalData_def split: sum.splits option.splits)

lemma FALLBACK_ARRAY_table:
  "FALLBACK_ARRAY = map (\<lambda>(month, price). \<lparr>month = month, price = price\<rparr>) FALLBACK_PRICES"
  by code_simp

lemma latestMonth_value: "latestMonth = ''2026-02''"
  by code_simp

lemma latestMonth_last: "\<forall>k \<in> set (map fst FALLBACK_PRICES). k \<le> latestMonth"
  by code_simp

lemma fallbackCurrentPrice_value:
  "fallbackCurrentPrice = \<lparr>price = 71000, change24h = None, source = None\<rparr>"
  by code_simp

lemma latestMonth_lookup: "map_of FALLBACK_PRICES latestMonth = Some 71000"
  by code_simp

lemma finallyBlock_fields [simp]:
  "priceData (finallyBlock s) = priceData s"
  "currentPrice (finallyBlock s) = currentPrice s"
  "error (finallyBlock s) = error s"
  "lastUpdated (finallyBlock s) = lastUpdated s"
  "isLive (finallyBlock s) = isLive s"
  "dataSource (finallyBlock s) = dataSource s"
  "localStorage (finallyBlock s) = localStorage s"
  "loading (finallyBlock s) = False"
  "isFetching (finallyBlock s) = False"
  "cyclesRunning (finallyBlock s) = cyclesRunning s - 1"
  "fetchCurrentPriceCalls (finallyBlock s) = fetchCurrentPriceCalls s"
  "fetchHistoricalDataCalls (finallyBlock s) = fetchHistoricalDataCalls s"
  by (simp_all add: finallyBlock_def)

lemma resume_caught:
  "tryBlock D now priceResult historyResult s = (Some e, s1)
    \<Longrightarrow> fetchPriceData_resume D now priceResult historyResult s = finallyBlock (catchBlock now s1)"
  by (simp add: fetchPriceData_resume_def)

lemma resume_completed:
  "tryBlock D now priceResult historyResult s = (None, s1)
    \<Longrightarrow> fetchPriceData_resume D now priceResult historyResult s = finallyBlock s1"
  by (simp add: fetchPriceData_resume_def)

lemma tryBlock_both_fail:
  "settledValue priceResult = None \<Longrightarrow> settledValue historyResult = None
    \<Longrightarrow> tryBlock D now priceResult historyResult s
      = (None, s\<lparr>priceData := FALLBACK_ARRAY, currentPrice := Some fallbackCurrentPrice,
                  dataSource := Some ''fallback'', isLive := False, lastUpdated := Some now,
                  error := None\<rparr>)"
  by (simp add: tryBlock_def processCurrent_def processHistory_def useFallback_def Let_def)

text \<open>
  C3. When neither a live price nor a historical series is obtained, and likewise when
  the \<^verbatim>\<open>try\<close> block throws whatever the two results were, the cycle ends with
  \<^verbatim>\<open>priceData\<close> equal to \<^verbatim>\<open>FALLBACK_ARRAY\<close>, with \<^verbatim>\<open>currentPrice\<close> holding the table's value at
  the last of its sorted keys, and with \<^verbatim>\<open>error\<close> equal to \<^verbatim>\<open>null\<close>. \<^verbatim>\<open>FALLBACK_ARRAY\<close> lists
  the table's entries as \<^verbatim>\<open>{month, price}\<close> objects; the last key is \<^verbatim>\<open>2026-02\<close>, where the
  table holds 71000.
\<close>

theorem total_failure_uses_fallback:
  "(settledValue priceResult = None \<and> settledValue historyResult = None \<longrightarrow>
      priceData (fetchPriceData_resume D now priceResult historyResult s) = FALLBACK_ARRAY
      \<and> currentPrice (fetchPriceData_resume D now priceResult historyResult s)
          = Some fallbackCurrentPrice
      \<and> error (fetchPriceData_resume D now priceResult historyResult s) = None)
   \<and> (fst (tryBlock D now priceResult historyResult s) \<noteq> None \<longrightarrow>
      priceData (fetchPriceData_resume D now priceResult historyResult s) = FALLBACK_ARRAY
      \<and> currentPrice (fetchPriceData_resume D now priceResult historyResult s)
          = Some fallbackCurrentPrice
      \<and> error (fetchPriceData_resume D now priceResult historyResult s) = None)
   \<and> FALLBACK_ARRAY = map (\<lambda>(month, price). \<lparr>month = month, price = price\<rparr>) FALLBACK_PRICES
   \<and> (\<forall>k \<in> set (map fst FALLBACK_PRICES). k \<le> latestMonth)
   \<and> latestMonth \<in> set (map fst FALLBACK_PRICES)
   \<and> map_of FALLBACK_PRICES latestMonth = Some (CurrentPrice.price fallbackCurrentPrice)
   \<and> CurrentPrice.price fallbackCurrentPrice = 71000"
proof (intro conjI impI)
  assume "settledValue priceResult = None \<and> settledValue historyResult = None"
  then have t: "tryBlock D now priceResult historyResult s
      = (None, s\<lparr>priceData := FALLBACK_ARRAY, currentPrice := Some fallbackCurrentPrice,
                  dataSource := Some ''fallback'', isLive := False, lastUpdated := Some now,
                  error := None\<rparr>)"
    by (simp add: tryBlock_both_fail)
  show "priceData (fetchPriceData_resume D now priceResult historyResult s) = FALLBACK_ARRAY"
    "currentPrice (fetchPriceData_resume D now priceResult historyResult s)
      = Some fallbackCurrentPrice"
    "error (fetchPriceData_resume D now priceResult historyResult s) = None"
    by (simp_all add: resume_completed [OF t])
next
  assume "fst (tryBlock D now priceResult historyResult s) \<noteq> None"
  then obtain e s1 where t: "tryBlock D now priceResult historyResult s = (Some e, s1)"
    by (cases "tryBlock D now priceResult historyResult s") auto
  show "priceData (fetchPriceData_resume D now priceResult historyResult s) = FALLBACK_ARRAY"
    "currentPrice (fetchPriceData_resume D now priceResult historyResult s)
      = Some fallbackCurrentPrice"
    "error (fetchPriceData_resume D now priceResult historyResult s) = None"
    by (simp_all add: resume_caught [OF t] catchBlock_def)
next
  show "FALLBACK_ARRAY = map (\<lambda>(month, price). \<lparr>month = month, price = price\<rparr>) FALLBACK_PRICES"
    by (rule FALLBACK_ARRAY_table)
  show "\<forall>k \<in> set (map fst FALLBACK_PRICES). k \<le> latestMonth"
    by (rule latestMonth_last)
  show "latestMonth \<in> set (map fst FALLBACK_PRICES)"
    by code_simp
  show "map_of FALLBACK_PRICES latestMonth = Some (CurrentPrice.price fallbackCurrentPrice)"
    by (simp add: latestMonth_lookup fallbackCurrentPrice_value)
  show "CurrentPrice.price fallbackCurrentPrice = 71000"
    by (simp add: fallbackCurrentPrice_value)
qed

theorem total_failure_uses_fallback_witness:
  "priceData (fetchPriceData_resume utcDate 5 (Fulfilled None) (Rejected (AggregateError []))
      (mount 0 emptyStorage)) = FALLBACK_ARRAY
   \<and> currentPrice (fetchPriceData_resume utcDate 5 (Fulfilled None) (Rejected (AggregateError []))
      (mount 0 emptyStorage)) = Some \<lparr>price = 71000, change24h = None, source = None\<rparr>
   \<and> error (fetchPriceData_resume utcDate 5 (Fulfilled None) (Rejected (AggregateError []))
      (mount 0 emptyStorage)) = None
   \<and> priceData (fetchPriceData_resume utcDate 5 (Fulfilled (Some binancePrice))
      (Fulfilled (Some [Sample 1704412800000 43000, Malformed])) (mount 0 emptyStorage))
      = FALLBACK_ARRAY
   \<and> currentPrice (fetchPriceData_resume utcDate 5 (Fulfilled (Some binancePrice))
      (Fulfilled (Some [Sample 1704412800000 43000, Malformed])) (mount 0 emptyStorage))
      = Some \<lparr>price = 71000, change24h = None, source = None\<rparr>"
proof -
  let ?s = "mount 0 emptyStorage"
  have h1: "settledValue (Fulfilled None :: priceResult) = None
      \<and> settledValue (Rejected (AggregateError []) :: historyResult) = None"
    by simp
  have h2: "fst (tryBlock utcDate 5 (Fulfilled (Some binancePrice))
      (Fulfilled (Some [Sample 1704412800000 43000, Malformed])) ?s) \<noteq> None"
    by (simp add: tryBlock_def processCurrent_def processHistory_def)
  note a = total_failure_uses_fallback [where D = utcDate and now = 5 and s = ?s
      and priceResult = "Fulfilled None" and historyResult = "Rejected (AggregateError [])",
      THEN conjunct1, THEN mp, OF h1]
  note b = total_failure_uses_fallback [where D = utcDate and now = 5 and s = ?s
      and priceResult = "Fulfilled (Some binancePrice)"
      and historyResult = "Fulfilled (Some [Sample 1704412800000 43000, Malformed])",
      THEN conjunct2, THEN conjunct1, THEN mp, OF h2]
  from a b show ?thesis
    by (simp add: fallbackCurrentPrice_value)
qed

lemma monthly_length: "length (toProcessed m) = length m"
  by (simp add: toProcessed_def)

lemma buckets_nonempty:
  "samples \<noteq> [] \<Longrightarrow> foldl (\<lambda>m (t, p). addSample D m t p) [] samples \<noteq> []"
proof
  assume ne: "samples \<noteq> []" and "foldl (\<lambda>m (t, p). addSample D m t p) [] samples = []"
  then have "(\<lambda>(t, p). monthKeyOf (D t)) ` set samples = {}"
    using buckets_keys [of D samples] by simp
  with ne show False by simp
qed

lemma latestOf_valid:
  "samples \<noteq> [] \<Longrightarrow> latestOf (map (\<lambda>(t, p). Sample t p) samples)
    = Some (Sample (fst (last samples)) (snd (last samples)))"
  by (simp add: latestOf_def last_map case_prod_unfold)

lemma resume_history_only:
  fixes D :: dateEnv and now :: int and s :: hook and samples :: "(int \<times> rat) list"
  assumes pr: "settledValue priceResult = None"
    and hr: "settledValue historyResult = Some (map (\<lambda>(t, p). Sample t p) samples)"
    and ne: "samples \<noteq> []"
  defines "s' \<equiv> fetchPriceData_resume D now priceResult historyResult s"
  defines "latest \<equiv> \<lparr>price = jsRound (snd (last samples)), change24h = None, source = None\<rparr>"
  shows "currentPrice s' = Some latest"
    and "monthlyAverages D (map (\<lambda>(t, p). Sample t p) samples) = Inr (priceData s')"
    and "priceData s' \<noteq> []"
    and "isLive s'" and "error s' = None"
    and "localStorage s' = snd (saveToCache now (priceData s') latest (localStorage s))"
proof -
  let ?M = "foldl (\<lambda>m (t, p). addSample D m t p) [] samples"
  have pn: "toProcessed ?M \<noteq> []"
    using buckets_nonempty [OF ne, of D] monthly_length [of ?M] by auto
  have t: "tryBlock D now priceResult historyResult s
      = (None, s\<lparr>priceData := toProcessed ?M, currentPrice := Some latest,
                  localStorage := snd (saveToCache now (toProcessed ?M) latest (localStorage s)),
                  isLive := True, lastUpdated := Some now, error := None\<rparr>)"
    using pn
    by (simp add: tryBlock_def processCurrent_def processHistory_def pr hr forEachSample_valid
        latestOf_valid [OF ne] cachedPriceOf_def Let_def latest_def)
  show "currentPrice s' = Some latest"
    and "monthlyAverages D (map (\<lambda>(t, p). Sample t p) samples) = Inr (priceData s')"
    and "priceData s' \<noteq> []"
    and "isLive s'" and "error s' = None"
    and "localStorage s' = snd (saveToCache now (priceData s') latest (localStorage s))"
    using pn
    by (simp_all add: s'_def resume_completed [OF t] monthlyAverages_def forEachSample_valid)
qed

text \<open>
  C2, as the code has it. When no live price is obtained and the historical fetch yields
  a non-empty series of well-formed samples, the cycle sets \<^verbatim>\<open>priceData\<close> to the monthly
  averages of the series and \<^verbatim>\<open>currentPrice.price\<close> to the price of the last sample of the raw
  series, rounded by \<^verbatim>\<open>Math.round\<close>, with \<^verbatim>\<open>change24h\<close> \<^verbatim>\<open>null\<close> and no source.
\<close>

theorem history_only_current_price:
  fixes D :: dateEnv and samples :: "(int \<times> rat) list"
  shows
  "settledValue priceResult = None
   \<and> settledValue historyResult = Some (map (\<lambda>(t, p). Sample t p) samples)
   \<and> samples \<noteq> [] \<longrightarrow>
     monthlyAverages D (map (\<lambda>(t, p). Sample t p) samples)
       = Inr (priceData (fetchPriceData_resume D now priceResult historyResult s))
     \<and> priceData (fetchPriceData_resume D now priceResult historyResult s) \<noteq> []
     \<and> currentPrice (fetchPriceData_resume D now priceResult historyResult s)
         = Some \<lparr>price = jsRound (snd (last samples)), change24h = None, source = None\<rparr>"
proof
  assume h: "settledValue priceResult = None
   \<and> settledValue historyResult = Some (map (\<lambda>(t, p). Sample t p) samples)
   \<and> samples \<noteq> []"
  then have pr: "settledValue priceResult = None"
    and hr: "settledValue historyResult = Some (map (\<lambda>(t, p). Sample t p) samples)"
    and ne: "samples \<noteq> []"
    by simp_all
  from resume_history_only(1-3) [OF pr hr ne, of D now s]
  show "monthlyAverages D (map (\<lambda>(t, p). Sample t p) samples)
       = Inr (priceData (fetchPriceData_resume D now priceResult historyResult s))
     \<and> priceData (fetchPriceData_resume D now priceResult historyResult s) \<noteq> []
     \<and> currentPrice (fetchPriceData_resume D now priceResult historyResult s)
         = Some \<lparr>price = jsRound (snd (last samples)), change24h = None, source = None\<rparr>"
    by simp
qed

theorem history_only_current_price_witness:
  "priceData (fetchPriceData_resume utcDate 5 (Fulfilled None)
      (Fulfilled (Some (map (\<lambda>(t, p). Sample t p)
         [(1704412800000, 43000), (1705708800000, 43400), (1707523200000, 52000)])))
      (mount 0 emptyStorage))
     = [\<lparr>month = ''2024-01'', price = 43200\<rparr>, \<lparr>month = ''2024-02'', price = 52000\<rparr>]
   \<and> currentPrice (fetchPriceData_resume utcDate 5 (Fulfilled None)
      (Fulfilled (Some (map (\<lambda>(t, p). Sample t p)
         [(1704412800000, 43000), (1705708800000, 43400), (1707523200000, 52000)])))
      (mount 0 emptyStorage))
     = Some \<lparr>price = 52000, change24h = None, source = None\<rparr>"
proof -
  let ?S = "[(1704412800000 :: int, 43000 :: rat), (1705708800000, 43400), (1707523200000, 52000)]"
  let ?hr = "Fulfilled (Some (map (\<lambda>(t, p). Sample t p) ?S)) :: historyResult"
  let ?s' = "fetchPriceData_resume utcDate 5 (Fulfilled None) ?hr (mount 0 emptyStorage)"
  have h: "settledValue (Fulfilled None :: priceResult) = None
      \<and> settledValue ?hr = Some (map (\<lambda>(t, p). Sample t p) ?S) \<and> ?S \<noteq> []"
    by simp
  have d: "utcDate 1704412800000 = (2024, 0)" "utcDate 1705708800000 = (2024, 0)"
    "utcDate 1707523200000 = (2024, 1)"
    by code_simp+
  have m: "monthlyAverages utcDate (map (\<lambda>(t, p). Sample t p) ?S)
      = Inr [\<lparr>month = ''2024-01'', price = 43200\<rparr>, \<lparr>month = ''2024-02'', price = 52000\<rparr>]"
    using monthlyAverages_example [OF d] by simp
  have r: "jsRound (snd (last ?S)) = 52000"
    by code_simp
  note t = history_only_current_price [where D = utcDate and now = 5 and s = "mount 0 emptyStorage"
      and priceResult = "Fulfilled None" and historyResult = ?hr and samples = ?S, THEN mp, OF h]
  from t have a: "monthlyAverages utcDate (map (\<lambda>(t, p). Sample t p) ?S) = Inr (priceData ?s')"
    by (rule conjunct1)
  from t have b: "currentPrice ?s'
      = Some \<lparr>price = jsRound (snd (last ?S)), change24h = None, source = None\<rparr>"
    by (rule conjunct2 [THEN conjunct2])
  from a have "priceData ?s'
      = [\<lparr>month = ''2024-01'', price = 43200\<rparr>, \<lparr>month = ''2024-02'', price = 52000\<rparr>]"
    unfolding m by (rule sum.inject(2) [THEN iffD1, symmetric])
  moreover from b have "currentPrice ?s' = Some \<lparr>price = 52000, change24h = None, source = None\<rparr>"
    unfolding r .
  ultimately show ?thesis by (rule conjI)
qed


text \<open>
  C2 as stated fails: with two samples in January 2024, 43000 and then 43400, the series
  has the single monthly average 43200, and the current price is 43400.
\<close>

theorem history_only_current_price_counterexample:
  "priceData (fetchPriceData_resume utcDate 5 (Fulfilled None)
      (Fulfilled (Some [Sample 1704412800000 43000, Sample 1705708800000 43400]))
      (mount 0 emptyStorage))
     = [\<lparr>month = ''2024-01'', price = 43200\<rparr>]
   \<and> currentPrice (fetchPriceData_resume utcDate 5 (Fulfilled None)
      (Fulfilled (Some [Sample 1704412800000 43000, Sample 1705708800000 43400]))
      (mount 0 emptyStorage))
     = Some \<lparr>price = 43400, change24h = None, source = None\<rparr>"
proof -
  let ?S = "[(1704412800000 :: int, 43000 :: rat), (1705708800000, 43400)]"
  let ?hr = "Fulfilled (Some [Sample 1704412800000 43000, Sample 1705708800000 43400]) :: historyResult"
  let ?s' = "fetchPriceData_resume utcDate 5 (Fulfilled None) ?hr (mount 0 emptyStorage)"
  have pr: "settledValue (Fulfilled None :: priceResult) = None"
    by simp
  have hr: "settledValue ?hr = Some (map (\<lambda>(t, p). Sample t p) ?S)"
    by simp
  have ne: "?S \<noteq> []"
    by simp
  have d: "utcDate 1704412800000 = (2024, 0)" "utcDate 1705708800000 = (2024, 0)"
    by code_simp+
  have m: "monthlyAverages utcDate (map (\<lambda>(t, p). Sample t p) ?S)
      = Inr [\<lparr>month = ''2024-01'', price = 43200\<rparr>]"
    by (simp add: monthlyAverages_def addSample_def Let_def toProcessed_def d example_keys
        example_rounds)
  have r: "jsRound (snd (last ?S)) = 43400"
    by code_simp
  have "Inr [\<lparr>month = ''2024-01'', price = 43200\<rparr>] = (Inr (priceData ?s') :: jsError + PricePoint list)"
    using resume_history_only(2) [OF pr hr ne, of utcDate 5 "mount 0 emptyStorage"]
    unfolding m .
  then have "priceData ?s' = [\<lparr>month = ''2024-01'', price = 43200\<rparr>]"
    by simp
  moreover have "currentPrice ?s' = Some \<lparr>price = 43400, change24h = None, source = None\<rparr>"
    using resume_history_only(1) [OF pr hr ne, of utcDate 5 "mount 0 emptyStorage"]
    unfolding r .
  ultimately show ?thesis by (rule conjI)
qed

section \<open>Properties of the transition system\<close>

lemma tryBlock_control:
  "isFetching (snd (tryBlock D now priceResult historyResult s)) = isFetching s"
  "cyclesRunning (snd (tryBlock D now priceResult historyResult s)) = cyclesRunning s"
  "fetchCurrentPriceCalls (snd (tryBlock D now priceResult historyResult s))
    = fetchCurrentPriceCalls s"
  "fetchHistoricalDataCalls (snd (tryBlock D now priceResult historyResult s))
    = fetchHistoricalDataCalls s"
  by (simp_all add: tryBlock_def processCurrent_def processHistory_def useFallback_def Let_def
      split: option.splits sum.splits rawSample.splits prod.splits)

lemma resume_control:
  "isFetching (fetchPriceData_resume D now priceResult historyResult s) = False"
  "cyclesRunning (fetchPriceData_resume D now priceResult historyResult s) = cyclesRunning s - 1"
  "fetchCurrentPriceCalls (fetchPriceData_resume D now priceResult historyResult s)
    = fetchCurrentPriceCalls s"
  "fetchHistoricalDataCalls (fetchPriceData_resume D now priceResult historyResult s)
    = fetchHistoricalDataCalls s"
proof -
  obtain r s1 where t: "tryBlock D now priceResult historyResult s = (r, s1)"
    by (cases "tryBlock D now priceResult historyResult s")
  have s1: "cyclesRunning s1 = cyclesRunning s" "fetchCurrentPriceCalls s1 = fetchCurrentPriceCalls s"
    "fetchHistoricalDataCalls s1 = fetchHistoricalDataCalls s"
    using tryBlock_control(2-4) [of D now priceResult historyResult s] by (simp_all add: t)
  show "isFetching (fetchPriceData_resume D now priceResult historyResult s) = False"
    "cyclesRunning (fetchPriceData_resume D now priceResult historyResult s) = cyclesRunning s - 1"
    "fetchCurrentPriceCalls (fetchPriceData_resume D now priceResult historyResult s)
      = fetchCurrentPriceCalls s"
    "fetchHistoricalDataCalls (fetchPriceData_resume D now priceResult historyResult s)
      = fetchHistoricalDataCalls s"
    using s1 by (cases r; simp add: fetchPriceData_resume_def t catchBlock_def)+
qed

lemma hydrate_control:
  "isFetching (hydrate now s) = isFetching s" "cyclesRunning (hydrate now s) = cyclesRunning s"
  by (simp_all add: hydrate_def split: sum.splits option.splits prod.splits)

lemma run_snoc: "run D s (acts @ [a]) = step D (run D s acts) a"
  by (simp add: run_def)

lemma run_Nil: "run D s [] = s"
  by (simp add: run_def)

lemma guard_invariant:
  "cyclesRunning (run D (mount now st) acts)
    = (if isFetching (run D (mount now st) acts) then 1 else 0)"
proof (induction acts rule: rev_induct)
  case Nil
  show ?case
    by (simp add: run_Nil mount_def fetchPriceData_begin_def hydrate_control initialHook_def)
next
  case (snoc a acts)
  let ?s = "run D (mount now st) acts"
  show ?case
  proof (cases a)
    case Tick
    with snoc.IH show ?thesis by (simp add: run_snoc fetchPriceData_begin_def)
  next
    case Refetch
    with snoc.IH show ?thesis by (simp add: run_snoc fetchPriceData_begin_def)
  next
    case (Settle t pr hr)
    with snoc.IH show ?thesis by (simp add: run_snoc resume_control split: if_splits)
  next
    case (StorageMode g w)
    with snoc.IH show ?thesis by (simp add: run_snoc)
  qed
qed

text \<open>
  C8. A call of \<^verbatim>\<open>fetchPriceData\<close>, from the timer or through \<^verbatim>\<open>refetch\<close>, that finds
  \<^verbatim>\<open>isFetching\<close> set returns with the whole state as it was: no exposed field changes and
  neither fetch function is called. A call that finds it clear calls each fetch function
  once. In every state reached from mounting, the number of cycles between the guard and
  their \<^verbatim>\<open>finally\<close> block is at most one, and it is one exactly when \<^verbatim>\<open>isFetching\<close> is set.
\<close>

theorem reentrancy_guard:
  "(isFetching s \<longrightarrow>
      fetchPriceData_begin s = s \<and> step D s Tick = s \<and> step D s Refetch = s)
   \<and> (\<not> isFetching s \<longrightarrow>
      fetchCurrentPriceCalls (fetchPriceData_begin s) = fetchCurrentPriceCalls s + 1
      \<and> fetchHistoricalDataCalls (fetchPriceData_begin s) = fetchHistoricalDataCalls s + 1
      \<and> isFetching (fetchPriceData_begin s))
   \<and> cyclesRunning (run D (mount now st) acts) \<le> 1
   \<and> (isFetching (run D (mount now st) acts)
        \<longleftrightarrow> cyclesRunning (run D (mount now st) acts) = 1)"
  using guard_invariant [of D now st acts]
  by (simp add: fetchPriceData_begin_def)

theorem reentrancy_guard_witness:
  "step utcDate (mount 0 emptyStorage) Refetch = mount 0 emptyStorage
   \<and> step utcDate (mount 0 emptyStorage) Tick = mount 0 emptyStorage
   \<and> fetchCurrentPriceCalls (mount 0 emptyStorage) = 1
   \<and> cyclesRunning (run utcDate (mount 0 emptyStorage)
        [Tick, Settle 5 (Fulfilled None) (Fulfilled None), Refetch, Tick]) \<le> 1"
proof -
  have f: "isFetching (mount 0 emptyStorage)"
    by (simp add: mount_def fetchPriceData_begin_def hydrate_control initialHook_def)
  have n: "\<not> isFetching (hydrate 0 (initialHook emptyStorage))"
    by (simp add: hydrate_control initialHook_def)
  have c: "fetchCurrentPriceCalls (hydrate 0 (initialHook emptyStorage)) = 0"
    by (simp add: hydrate_def initialHook_def emptyStorage_def loadFromCache_def loadAttempt_def
        getItem_def)
  note g = reentrancy_guard [where s = "mount 0 emptyStorage" and D = utcDate and now = 0
      and st = emptyStorage
      and acts = "[Tick, Settle 5 (Fulfilled None) (Fulfilled None), Refetch, Tick]"]
  note b = reentrancy_guard [where s = "hydrate 0 (initialHook emptyStorage)" and D = utcDate
      and now = 0 and st = emptyStorage and acts = "[]", THEN conjunct2, THEN conjunct1, THEN mp,
      OF n, THEN conjunct1]
  from g [THEN conjunct1, THEN mp, OF f] g [THEN conjunct2, THEN conjunct2, THEN conjunct1] b c
  show ?thesis
    by (simp add: mount_def)
qed

section \<open>The invariant of the data model\<close>




























end
